theory Spec2Isabelle
  imports Main "HOL-Library.Sublist" "HOL-Library.AList"
begin

section \<open>Values of the host language\<close>

text \<open>
  Transactions, queries and messages are JavaScript values. Numbers are restricted to
  integers (the ledger only stores JSON integers, timestamps and counters); a BigInt is
  a separate constructor, as \<^verbatim>\<open>typeof\<close> distinguishes the two. An object is
  an association list in property order; reading a missing property gives
  \<^verbatim>\<open>undefined\<close>, which is \<open>None\<close> here.
\<close>

datatype jsval =
    JNull
  | JBool bool
  | JNum int
  | JStr string
  | JBig int
  | JArr "jsval list"
  | JObj "(string \<times> jsval) list"

text \<open>Property read \<^verbatim>\<open>entry[key]\<close> on a value; only objects carry properties here.\<close>

fun getProp :: "jsval \<Rightarrow> string \<Rightarrow> jsval option" where
  "getProp (JObj kvs) k = map_of kvs k"
| "getProp _ k = None"

text \<open>Decimal digits of a natural number, as \<^verbatim>\<open>toString()\<close> prints them.\<close>

definition digit_char :: "nat \<Rightarrow> char" where
  "digit_char d = char_of (48 + d)"

fun dec :: "nat \<Rightarrow> string" where
  "dec n = (if n < 10 then [digit_char n] else dec (n div 10) @ [digit_char (n mod 10)])"

declare dec.simps [simp del]

definition int_toString :: "int \<Rightarrow> string" where
  "int_toString i = (if i < 0 then CHR ''-'' # dec (nat (- i)) else dec (nat i))"

section \<open>Merkle root (\<^verbatim>\<open>Blockchain.#getRootHash\<close>)\<close>

text \<open>
  SHA-256 (hex digest) and the text produced by \<^verbatim>\<open>JSON.stringify\<close> are
  primitives of the platform; the definitions take them as parameters \<open>H\<close> and
  \<open>stringify\<close>. The replacer of \<^verbatim>\<open>serialize\<close> runs before the text is
  produced and turns every BigInt into its decimal string.
\<close>

fun replaceBigInt :: "jsval \<Rightarrow> jsval" where
  "replaceBigInt (JBig n) = JStr (int_toString n)"
| "replaceBigInt (JArr xs) = JArr (map replaceBigInt xs)"
| "replaceBigInt (JObj kvs) = JObj (map (\<lambda>(k, v). (k, replaceBigInt v)) kvs)"
| "replaceBigInt v = v"

definition serialize :: "(jsval \<Rightarrow> string) \<Rightarrow> jsval \<Rightarrow> string" where
  "serialize stringify data = stringify (replaceBigInt data)"

text \<open>
  \<^verbatim>\<open>list.reduce((result, entry, index) => ..., [])\<close>: the callback sees the running
  index. At an even index the entry is pushed; at an odd index the last element of the
  result is replaced by the hash of it and the entry. (An odd index with an empty result
  cannot occur; JavaScript would then write a property \<^verbatim>\<open>-1\<close> and leave the array
  empty.)
\<close>

definition pairStep :: "(string \<Rightarrow> string) \<Rightarrow> string list \<Rightarrow> string \<Rightarrow> nat \<Rightarrow> string list" where
  "pairStep H result entry index =
     (if index mod 2 = 0 then result @ [entry]
      else if result = [] then []
      else (let prevHash = last result; hash = H (prevHash @ entry)
            in butlast result @ [hash]))"

fun reduce_idx :: "('b \<Rightarrow> 'a \<Rightarrow> nat \<Rightarrow> 'b) \<Rightarrow> nat \<Rightarrow> 'a list \<Rightarrow> 'b \<Rightarrow> 'b" where
  "reduce_idx f i [] acc = acc"
| "reduce_idx f i (x # xs) acc = reduce_idx f (Suc i) xs (f acc x i)"

definition newlist :: "(string \<Rightarrow> string) \<Rightarrow> string list \<Rightarrow> string list" where
  "newlist H list = reduce_idx (pairStep H) 0 list []"

text \<open>The reference pairing of the specification: consecutive pairs are hashed, a trailing
  single element is carried through.\<close>

fun pair_up :: "(string \<Rightarrow> string) \<Rightarrow> string list \<Rightarrow> string list" where
  "pair_up H [] = []"
| "pair_up H [a] = [a]"
| "pair_up H (a # b # rest) = H (a @ b) # pair_up H rest"

lemma reduce_idx_pairStep_even:
  "even i \<Longrightarrow> reduce_idx (pairStep H) i xs acc = acc @ pair_up H xs"
proof (induction H xs arbitrary: i acc rule: pair_up.induct)
  case (1 H)
  then show ?case by simp
next
  case (2 H a)
  then show ?case by (simp add: pairStep_def)
next
  case (3 H a b rest)
  have par: "i mod 2 = 0" "Suc i mod 2 \<noteq> 0"
    using "3.prems" by presburger+
  have "reduce_idx (pairStep H) i (a # b # rest) acc =
        reduce_idx (pairStep H) (Suc (Suc i)) rest (acc @ [H (a @ b)])"
    using par by (simp add: pairStep_def Let_def)
  also have "\<dots> = (acc @ [H (a @ b)]) @ pair_up H rest"
    using "3.prems" by (intro "3.IH") simp
  finally show ?case by simp
qed

lemma newlist_pair_up: "newlist H list = pair_up H list"
  by (simp add: newlist_def reduce_idx_pairStep_even)

lemma length_pair_up: "length (pair_up H xs) = (length xs + 1) div 2"
  by (induction H xs rule: pair_up.induct) auto

text \<open>
  \<^verbatim>\<open>findRoot\<close> recurses until one element is left. On the empty list the source
  recurses without end (the call stack overflows); that outcome is \<open>None\<close>.
  \<^verbatim>\<open>#getRootHash\<close> never calls it on the empty list.
\<close>

function findRoot :: "(string \<Rightarrow> string) \<Rightarrow> string list \<Rightarrow> string option" where
  "findRoot H list =
     (if length list = 1 then Some (list ! 0)
      else if list = [] then None
      else findRoot H (newlist H list))"
  by pat_completeness auto
termination
proof (relation "measure (\<lambda>(H, list). length list)")
  show "wf (measure (\<lambda>(H, list). length list))" by simp
next
  fix H :: "string \<Rightarrow> string" and list :: "string list"
  assume "length list \<noteq> 1" "list \<noteq> []"
  then have "2 \<le> length list" by (cases "length list") auto
  then have "(length list + 1) div 2 < length list" by arith
  then show "((H, newlist H list), (H, list)) \<in> measure (\<lambda>(H, list). length list)"
    by (simp add: newlist_pair_up length_pair_up)
qed

declare findRoot.simps [simp del]

definition getRootHash ::
  "(string \<Rightarrow> string) \<Rightarrow> (jsval \<Rightarrow> string) \<Rightarrow> jsval list \<Rightarrow> string option" where
  "getRootHash H stringify transactions =
     (if transactions = [] then None
      else findRoot H (map (\<lambda>entry. H (serialize stringify entry)) transactions))"

text \<open>The Merkle root as the specification words it.\<close>

function merkle_reduce :: "(string \<Rightarrow> string) \<Rightarrow> string list \<Rightarrow> string" where
  "merkle_reduce H hs =
     (if length hs \<le> 1 then (case hs of [] \<Rightarrow> [] | h # _ \<Rightarrow> h)
      else merkle_reduce H (pair_up H hs))"
  by pat_completeness auto
termination
proof (relation "measure (\<lambda>(H, hs). length hs)")
  show "wf (measure (\<lambda>(H, hs). length hs))" by simp
next
  fix H :: "string \<Rightarrow> string" and hs :: "string list"
  assume "\<not> length hs \<le> 1"
  then have "(length hs + 1) div 2 < length hs" by arith
  then show "((H, pair_up H hs), (H, hs)) \<in> measure (\<lambda>(H, hs). length hs)"
    by (simp add: length_pair_up)
qed

declare merkle_reduce.simps [simp del]

definition merkle_root_spec ::
  "(string \<Rightarrow> string) \<Rightarrow> (jsval \<Rightarrow> string) \<Rightarrow> jsval list \<Rightarrow> string" where
  "merkle_root_spec H stringify transactions =
     merkle_reduce H (map (\<lambda>t. H (stringify (replaceBigInt t))) transactions)"

lemma findRoot_merkle_reduce:
  "list \<noteq> [] \<Longrightarrow> findRoot H list = Some (merkle_reduce H list)"
proof (induction H list rule: findRoot.induct)
  case (1 H list)
  show ?case
  proof (cases "length list = 1")
    case True
    then obtain h where "list = [h]" by (cases list) auto
    then show ?thesis by (simp add: findRoot.simps merkle_reduce.simps)
  next
    case False
    with "1.prems" have big: "\<not> length list \<le> 1" by (cases list) auto
    have "0 < length (newlist H list)"
      using "1.prems" by (simp add: newlist_pair_up length_pair_up)
    then have ne: "newlist H list \<noteq> []" by auto
    have "findRoot H list = findRoot H (newlist H list)"
      using False "1.prems" by (simp add: findRoot.simps)
    also have "\<dots> = Some (merkle_reduce H (newlist H list))"
      using False "1.prems" ne by (intro "1.IH") auto
    also have "merkle_reduce H (newlist H list) = merkle_reduce H list"
      using big by (simp add: merkle_reduce.simps[of H list] newlist_pair_up)
    finally show ?thesis .
  qed
qed


section \<open>The serializer (\<^verbatim>\<open>util/serializer\<close>)\<close>

text \<open>
  \<^verbatim>\<open>deserialize\<close> is \<^verbatim>\<open>JSON.parse\<close> with a reviver. The reviver sees every
  property after its children, with the property's key; for a key \<^verbatim>\<open>index\<close> whose
  value, converted to a string, consists of decimal digits only, it returns
  \<^verbatim>\<open>BigInt(value)\<close>. \<^verbatim>\<open>toStringJS\<close> is the string conversion the regular
  expression test applies to its argument.
\<close>

fun join_comma :: "string list \<Rightarrow> string" where
  "join_comma [] = []"
| "join_comma [s] = s"
| "join_comma (s # t # rest) = s @ '','' @ join_comma (t # rest)"

fun toStringJS :: "jsval \<Rightarrow> string" where
  "toStringJS JNull = ''null''"
| "toStringJS (JBool b) = (if b then ''true'' else ''false'')"
| "toStringJS (JNum n) = int_toString n"
| "toStringJS (JStr s) = s"
| "toStringJS (JBig n) = int_toString n"
| "toStringJS (JArr xs) = join_comma (map (\<lambda>x. if x = JNull then [] else toStringJS x) xs)"
| "toStringJS (JObj kvs) = ''[object Object]''"

definition is_digit :: "char \<Rightarrow> bool" where
  "is_digit c = ((48::nat) \<le> of_char c \<and> (of_char c :: nat) \<le> 57)"

definition all_digits :: "string \<Rightarrow> bool" where
  \<comment> \<open>the regular expression \<^verbatim>\<open>/^[0-9]+$/\<close>\<close>
  "all_digits s = (s \<noteq> [] \<and> list_all is_digit s)"

definition digits_value :: "string \<Rightarrow> nat" where
  "digits_value s = foldl (\<lambda>acc c. 10 * acc + ((of_char c :: nat) - 48)) (0::nat) s"

definition reviver :: "string \<Rightarrow> jsval \<Rightarrow> jsval" where
  "reviver key v =
     (if key = ''index'' \<and> all_digits (toStringJS v)
      then JBig (int (digits_value (toStringJS v))) else v)"

fun walk :: "string \<Rightarrow> jsval \<Rightarrow> jsval"
  and walk_elems :: "nat \<Rightarrow> jsval list \<Rightarrow> jsval list"
  and walk_props :: "(string \<times> jsval) list \<Rightarrow> (string \<times> jsval) list" where
  "walk key (JArr xs) = reviver key (JArr (walk_elems 0 xs))"
| "walk key (JObj kvs) = reviver key (JObj (walk_props kvs))"
| "walk key JNull = reviver key JNull"
| "walk key (JBool b) = reviver key (JBool b)"
| "walk key (JNum n) = reviver key (JNum n)"
| "walk key (JStr s) = reviver key (JStr s)"
| "walk key (JBig n) = reviver key (JBig n)"
| "walk_elems i [] = []"
| "walk_elems i (x # xs) = walk (dec i) x # walk_elems (Suc i) xs"
| "walk_props [] = []"
| "walk_props ((k, v) # kvs) = (k, walk k v) # walk_props kvs"

definition deserialize :: "(string \<Rightarrow> jsval) \<Rightarrow> string \<Rightarrow> jsval" where
  "deserialize parse data = walk [] (parse data)"

text \<open>
  What a value becomes when it is written with \<^verbatim>\<open>serialize\<close> and read back with
  \<^verbatim>\<open>deserialize\<close>, the JSON text in between denoting the tree it was printed from.
  \<open>key\<close> is the property under which the value sits.
\<close>

definition stored_form :: "string \<Rightarrow> jsval \<Rightarrow> jsval" where
  "stored_form key v = walk key (replaceBigInt v)"


definition stored_list :: "jsval list \<Rightarrow> jsval list" where
  \<comment> \<open>the elements of an array after the same round trip\<close>
  "stored_list xs = walk_elems 0 (map replaceBigInt xs)"

section \<open>Blocks and the LevelDB store (\<^verbatim>\<open>storage/leveldb\<close>)\<close>

text \<open>
  A block as declared in \<^verbatim>\<open>types/block.d.ts\<close>. Blocks received from peers may
  lack fields; a field that is \<^verbatim>\<open>null\<close> or absent is \<open>None\<close>. The index is a
  BigInt, the other numbers are JavaScript numbers.
\<close>

record block =
  version :: "string option"
  index :: "nat option"
  timestamp :: "int option"
  nonce :: "int option"
  prevHash :: "string option"
  hash :: "string option"
  transactions :: "jsval list option"

text \<open>
  The main keyspace is ordered by the 8-byte big-endian key of the block index; the model
  keeps it as a list of (index, block) in key order, the order in which a forward stream
  yields the entries. Indexes are taken below \<open>2^64\<close>, where the key determines the
  index. Each configured index key has a keyspace of its own, from the stringified
  attribute value to the list of block numbers; \<open>indexStorages\<close> is \<open>None\<close> when
  no index keys were configured.
\<close>

type_synonym keyspace = "(nat \<times> block) list"

record leveldb =
  main :: keyspace
  indexStorages :: "(string \<times> (string \<times> jsval list) list) list option"

definition put :: "nat \<Rightarrow> block \<Rightarrow> keyspace \<Rightarrow> keyspace" where
  "put k v db = filter (\<lambda>(k', _). k' < k) db @ [(k, v)] @ filter (\<lambda>(k', _). k < k') db"

definition stored_block :: "block \<Rightarrow> block" where
  \<comment> \<open>the block that \<^verbatim>\<open>deserialize\<close> returns for the text \<^verbatim>\<open>serialize\<close> wrote\<close>
  "stored_block b = b\<lparr>transactions := map_option stored_list (transactions b)\<rparr>"

definition getIndexedBlockIndexes :: "(string \<times> jsval list) list \<Rightarrow> string \<Rightarrow> jsval list" where
  "getIndexedBlockIndexes indexStorage indexValue =
     (case map_of indexStorage indexValue of None \<Rightarrow> [] | Some blockIndexes \<Rightarrow> blockIndexes)"

definition putIndexedBlockIndexes ::
  "(string \<times> jsval list) list \<Rightarrow> string \<Rightarrow> jsval list \<Rightarrow> (string \<times> jsval list) list" where
  "putIndexedBlockIndexes indexStorage indexValue blockIndexes =
     AList.update indexValue (stored_list blockIndexes) indexStorage"

text \<open>The inner loop of \<^verbatim>\<open>storeBlock\<close>: one transaction against one index key.\<close>

definition indexTransaction ::
  "nat \<Rightarrow> jsval \<Rightarrow> string \<Rightarrow> (string \<times> (string \<times> jsval list) list) list
     \<Rightarrow> (string \<times> (string \<times> jsval list) list) list" where
  "indexTransaction blockIndex transaction indexKey storages =
     (case map_of storages indexKey of
        None \<Rightarrow> storages
      | Some indexStorage \<Rightarrow>
          (case getProp transaction indexKey of
             None \<Rightarrow> storages
           | Some JNull \<Rightarrow> storages
           | Some v \<Rightarrow>
               (let indexValue = (case v of JStr s \<Rightarrow> s | _ \<Rightarrow> toStringJS v);
                    indexes = getIndexedBlockIndexes indexStorage indexValue;
                    indexes' = (if JBig (int blockIndex) \<in> set indexes then indexes
                                else indexes @ [JBig (int blockIndex)])
                in AList.update indexKey
                     (putIndexedBlockIndexes indexStorage indexValue indexes') storages)))"

definition generateIndex ::
  "nat \<Rightarrow> jsval list \<Rightarrow> (string \<times> (string \<times> jsval list) list) list
     \<Rightarrow> (string \<times> (string \<times> jsval list) list) list" where
  "generateIndex blockIndex txs storages =
     fold (\<lambda>transaction st. fold (indexTransaction blockIndex transaction) (map fst storages) st)
       txs storages"

definition storeBlock :: "leveldb \<Rightarrow> block \<Rightarrow> leveldb" where
  "storeBlock db b =
     (case index b of
        None \<Rightarrow> db
      | Some i \<Rightarrow>
          db\<lparr> indexStorages :=
                (case indexStorages db of
                   None \<Rightarrow> None
                 | Some storages \<Rightarrow>
                     (case transactions b of
                        None \<Rightarrow> Some storages
                      | Some txs \<Rightarrow> Some (generateIndex i txs storages))),
              main := put i (stored_block b) (main db) \<rparr>)"

definition restoreBlock :: "leveldb \<Rightarrow> int \<Rightarrow> block option" where
  \<comment> \<open>no block is stored under the key of \<^verbatim>\<open>-1n\<close>\<close>
  "restoreBlock db i = (if i < 0 then None else map_of (main db) (nat i))"

definition getLastIndex :: "leveldb \<Rightarrow> int" where
  \<comment> \<open>the first key of a backward key stream, or \<^verbatim>\<open>-1n\<close>\<close>
  "getLastIndex db = (case rev (main db) of [] \<Rightarrow> - 1 | (k, _) # _ \<Rightarrow> int k)"


section \<open>The blockchain engine (\<^verbatim>\<open>blockchain.js\<close>)\<close>

text \<open>
  The pool holds objects; \<^verbatim>\<open>includes\<close> compares them by identity, so a pooled
  transaction is a pair of its reference and its content. The clock
  (\<^verbatim>\<open>Date.now()\<close>) is the parameter \<open>now\<close>.
\<close>

type_synonym obj = "nat \<times> jsval"

record blockchain =
  bc_version :: string
  bc_transactions :: "obj list"
  bc_storage :: leveldb

datatype error =
    TypeError
  | RouteHashDoesNotMatch
  | InvalidHashValue
  | FailedToAcquireRootHash
  | IncompleteBlockData
  | IndexNotContinuous
  | InvalidRootHashValue
  | InvalidBlockHash
  | HashNotContinuous

text \<open>
  How a call that runs under the storage lock ends: it returns before taking the lock
  (\<open>Skipped\<close>), it reports a value or an error through the lock's callback (the first
  report counts), or an exception leaves the locked section (\<open>Thrown\<close>).
\<close>

datatype 'a outcome = Skipped | Completed 'a | Failed error | Thrown error

definition addTransaction :: "blockchain \<Rightarrow> obj \<Rightarrow> blockchain" where
  "addTransaction bc transaction =
     (case snd transaction of
        JObj _ \<Rightarrow>
          (if fst transaction \<in> fst ` set (bc_transactions bc) then bc
           else bc\<lparr>bc_transactions := bc_transactions bc @ [transaction]\<rparr>)
      | JArr _ \<Rightarrow>
          (if fst transaction \<in> fst ` set (bc_transactions bc) then bc
           else bc\<lparr>bc_transactions := bc_transactions bc @ [transaction]\<rparr>)
      | _ \<Rightarrow> bc)"

definition generateHash :: "(string \<Rightarrow> string) \<Rightarrow> int \<Rightarrow> string \<Rightarrow> string \<Rightarrow> string" where
  "generateHash H n prev current = H (prev @ int_toString n @ current)"

text \<open>The nonce search may run forever; not returning is \<open>None\<close>.\<close>

partial_function (option) findNonce_from ::
  "(string \<Rightarrow> string) \<Rightarrow> string \<Rightarrow> string \<Rightarrow> nat \<Rightarrow> nat option" where
  "findNonce_from H prev current n =
     (if take 4 (generateHash H (int n) prev current) = ''0000'' then Some n
      else findNonce_from H prev current (Suc n))"

declare findNonce_from.simps [code]

definition findNonce :: "(string \<Rightarrow> string) \<Rightarrow> string \<Rightarrow> string \<Rightarrow> nat option" where
  "findNonce H prev current = findNonce_from H prev current 0"

definition H0 :: string where
  "H0 = ''1183f7f0cb6243e92d5e4ba2fb626b02bca27ffe89c77dcbd7003167405da253''"

text \<open>
  \<^verbatim>\<open>#createBlock\<close> checks the run-time types of its arguments: the index must be a
  BigInt, the nonce a number, both hashes strings. Its callers pass \<^verbatim>\<open>0n\<close> or
  \<^verbatim>\<open>last+1n\<close>, never a negative BigInt.
\<close>

definition createBlock ::
  "int \<Rightarrow> blockchain \<Rightarrow> jsval \<Rightarrow> jsval \<Rightarrow> string option \<Rightarrow> string option
     \<Rightarrow> block option \<times> blockchain" where
  "createBlock now bc idx n prev h =
     (case (idx, n, prev, h) of
        (JBig i, JNum k, Some p, Some c) \<Rightarrow>
          (if i < 0 then (None, bc)
           else
             (let b = \<lparr> version = Some (bc_version bc), index = Some (nat i),
                        timestamp = Some now, nonce = Some k, prevHash = Some p,
                        hash = Some c, transactions = Some (map snd (bc_transactions bc)) \<rparr>
              in (Some b, bc\<lparr> bc_transactions := [],
                              bc_storage := storeBlock (bc_storage bc) b \<rparr>)))
      | _ \<Rightarrow> (None, bc))"

definition generateGenesisBlock ::
  "(string \<Rightarrow> string) \<Rightarrow> int \<Rightarrow> blockchain \<Rightarrow> (block option \<times> blockchain) option" where
  "generateGenesisBlock H now bc =
     (case findNonce H [] H0 of
        None \<Rightarrow> None
      | Some n \<Rightarrow>
          Some (createBlock now bc (JBig 0) (JNum (int n)) (Some [])
                  (Some (generateHash H (int n) [] H0))))"

definition commitBlock ::
  "(string \<Rightarrow> string) \<Rightarrow> (jsval \<Rightarrow> string) \<Rightarrow> int \<Rightarrow> blockchain
     \<Rightarrow> block option outcome \<times> blockchain" where
  "commitBlock H stringify now bc =
     (if bc_transactions bc = [] then (Skipped, bc)
      else
        (let lastIndex = getLastIndex (bc_storage bc);
             rootHash = getRootHash H stringify (map snd (bc_transactions bc))
         in case restoreBlock (bc_storage bc) lastIndex of
              None \<Rightarrow> (Thrown TypeError, bc)
            | Some lastBlock \<Rightarrow>
                (case rootHash of
                   None \<Rightarrow> (Failed FailedToAcquireRootHash, bc)
                 | Some r \<Rightarrow>
                     (let lastHash = hash lastBlock;
                          h = generateHash H 0
                                (case lastHash of None \<Rightarrow> ''undefined'' | Some p \<Rightarrow> p) r;
                          (b, bc') = createBlock now bc (JBig (lastIndex + 1)) (JNum 0)
                                       lastHash (Some h)
                      in (Completed b, bc')))))"

text \<open>
  \<^verbatim>\<open>commitProofOfWork\<close> returns at once unless \<^verbatim>\<open>typeof index\<close> is
  \<^verbatim>\<open>"number"\<close>. After reporting a mismatch it does not return; the rest of the body
  still runs, but only the first report reaches the caller.
\<close>

definition commitProofOfWork ::
  "(string \<Rightarrow> string) \<Rightarrow> (jsval \<Rightarrow> string) \<Rightarrow> int \<Rightarrow> blockchain
     \<Rightarrow> jsval \<Rightarrow> jsval \<Rightarrow> jsval \<Rightarrow> block option outcome \<times> blockchain" where
  "commitProofOfWork H stringify now bc idx rootHash n =
     (case (idx, rootHash, n) of
        (JNum i, JStr r, JNum k) \<Rightarrow>
          (if bc_transactions bc = [] then (Skipped, bc)
           else
             (let lastIndex = getLastIndex (bc_storage bc)
              in if i \<le> lastIndex then (Completed None, bc)
                 else
                   (let first = (if Some r \<noteq> getRootHash H stringify (map snd (bc_transactions bc))
                                 then Some (Failed RouteHashDoesNotMatch) else None)
                    in case restoreBlock (bc_storage bc) lastIndex of
                         None \<Rightarrow> (case first of Some e \<Rightarrow> (e, bc) | None \<Rightarrow> (Thrown TypeError, bc))
                       | Some lastBlock \<Rightarrow>
                           (let lastHash = hash lastBlock;
                                h = generateHash H k
                                      (case lastHash of None \<Rightarrow> ''undefined'' | Some p \<Rightarrow> p) r;
                                second = (case first of
                                            Some e \<Rightarrow> Some e
                                          | None \<Rightarrow> (if take 4 h \<noteq> ''0000''
                                                     then Some (Failed InvalidHashValue) else None));
                                (b, bc') = createBlock now bc idx n lastHash (Some h)
                            in (case second of Some e \<Rightarrow> e | None \<Rightarrow> Completed b, bc')))))
      | _ \<Rightarrow> (Skipped, bc))"

text \<open>
  \<^verbatim>\<open>#validateBlocks\<close>: the loop over the incoming blocks, carrying the index and the
  hash of the predecessor. On an empty store (\<^verbatim>\<open>lastIndex == -1n\<close>) the function
  returns before the loop.
\<close>

fun validateLoop ::
  "(string \<Rightarrow> string) \<Rightarrow> (jsval \<Rightarrow> string) \<Rightarrow> int \<Rightarrow> string option \<Rightarrow> block list
     \<Rightarrow> error option" where
  "validateLoop H stringify currentIndex lastPrevHash [] = None"
| "validateLoop H stringify currentIndex lastPrevHash (b # bs) =
     (case (version b, index b, timestamp b, nonce b, prevHash b, transactions b) of
        (Some v, Some i, Some t, Some k, Some p, Some txs) \<Rightarrow>
          (if int i \<noteq> currentIndex + 1 then Some IndexNotContinuous
           else case getRootHash H stringify txs of
                  None \<Rightarrow> Some InvalidRootHashValue
                | Some r \<Rightarrow>
                    (if Some (generateHash H k p r) \<noteq> hash b then Some InvalidBlockHash
                     else if lastPrevHash \<noteq> Some p then Some HashNotContinuous
                     else validateLoop H stringify (currentIndex + 1) (hash b) bs))
      | _ \<Rightarrow> Some IncompleteBlockData)"

definition validateBlocks ::
  "(string \<Rightarrow> string) \<Rightarrow> (jsval \<Rightarrow> string) \<Rightarrow> leveldb \<Rightarrow> block list \<Rightarrow> error option" where
  "validateBlocks H stringify db blocks =
     (let lastIndex = getLastIndex db
      in if lastIndex = - 1 then None
         else case restoreBlock db lastIndex of
                None \<Rightarrow> Some TypeError
              | Some lastBlock \<Rightarrow> validateLoop H stringify lastIndex (hash lastBlock) blocks)"

definition storeBlocks ::
  "(string \<Rightarrow> string) \<Rightarrow> (jsval \<Rightarrow> string) \<Rightarrow> leveldb \<Rightarrow> block list \<Rightarrow> error + leveldb" where
  "storeBlocks H stringify db blocks =
     (case validateBlocks H stringify db blocks of
        Some e \<Rightarrow> Inl e
      | None \<Rightarrow> Inr (fold (\<lambda>b d. storeBlock d b) blocks db))"

definition setBlocks ::
  "(string \<Rightarrow> string) \<Rightarrow> (jsval \<Rightarrow> string) \<Rightarrow> blockchain \<Rightarrow> block list
     \<Rightarrow> unit outcome \<times> blockchain" where
  "setBlocks H stringify bc newValue =
     (let lastIndex = getLastIndex (bc_storage bc);
          blocks = filter (\<lambda>b. case index b of None \<Rightarrow> False | Some i \<Rightarrow> lastIndex < int i)
                     newValue
      in if blocks = [] then (Completed (), bc)
         else case storeBlocks H stringify (bc_storage bc) blocks of
                Inl e \<Rightarrow> (Thrown e, bc)
              | Inr db \<Rightarrow> (Completed (), bc\<lparr>bc_storage := db\<rparr>))"


subsection \<open>Validation as the specification words it\<close>

text \<open>
  A block passes against its predecessor (index \<open>cur\<close>, hash \<open>prev\<close>) when all
  required fields are present, its index is \<open>cur + 1\<close>, the Merkle root of its
  transactions can be recomputed, its hash is the block hash of its previous hash, nonce
  and root, and its previous hash is the predecessor's hash.
\<close>

definition block_passes ::
  "(string \<Rightarrow> string) \<Rightarrow> (jsval \<Rightarrow> string) \<Rightarrow> int \<Rightarrow> string option \<Rightarrow> block \<Rightarrow> bool" where
  "block_passes H stringify cur prev b =
     (case (version b, index b, timestamp b, nonce b, prevHash b, transactions b) of
        (Some v, Some i, Some t, Some k, Some p, Some txs) \<Rightarrow>
          int i = cur + 1 \<and>
          (case getRootHash H stringify txs of
             None \<Rightarrow> False
           | Some r \<Rightarrow> hash b = Some (generateHash H k p r)) \<and>
          prev = Some p
      | _ \<Rightarrow> False)"

fun chain_passes ::
  "(string \<Rightarrow> string) \<Rightarrow> (jsval \<Rightarrow> string) \<Rightarrow> int \<Rightarrow> string option \<Rightarrow> block list \<Rightarrow> bool" where
  "chain_passes H stringify cur prev [] = True"
| "chain_passes H stringify cur prev (b # bs) =
     (block_passes H stringify cur prev b \<and> chain_passes H stringify (cur + 1) (hash b) bs)"

definition remaining :: "leveldb \<Rightarrow> block list \<Rightarrow> block list" where
  \<comment> \<open>the incoming blocks whose index exceeds the last stored index\<close>
  "remaining db newValue =
     filter (\<lambda>b. case index b of None \<Rightarrow> False | Some i \<Rightarrow> getLastIndex db < int i) newValue"

lemma validateLoop_chain_passes:
  "validateLoop H stringify cur prev bs = None \<longleftrightarrow> chain_passes H stringify cur prev bs"
proof (induction bs arbitrary: cur prev)
  case Nil
  then show ?case by simp
next
  case (Cons b bs)
  show ?case
    by (auto simp: block_passes_def Cons.IH split: option.splits)
qed

subsection \<open>Stand-ins for closed examples\<close>

text \<open>
  Closed examples need concrete functions in place of the two platform primitives. These
  stand-ins only instantiate the parameters; every general statement below holds for all
  \<open>H\<close> and \<open>stringify\<close>.
\<close>

definition example_sha256 :: "string \<Rightarrow> string" where
  "example_sha256 s = ''0000'' @ s"

text \<open>
  The stand-in for \<^verbatim>\<open>JSON.stringify\<close> and \<^verbatim>\<open>JSON.parse\<close> is a printer and a
  parser for JSON without string escapes and without fractions; the parser carries fuel
  and gives \<^verbatim>\<open>null\<close> where the real one would raise a syntax error.
\<close>

fun json_text :: "jsval \<Rightarrow> string"
  and json_elems :: "jsval list \<Rightarrow> string list"
  and json_members :: "(string \<times> jsval) list \<Rightarrow> string list" where
  "json_text JNull = ''null''"
| "json_text (JBool b) = (if b then ''true'' else ''false'')"
| "json_text (JNum n) = int_toString n"
| "json_text (JStr s) = [CHR 0x22] @ s @ [CHR 0x22]"
| "json_text (JBig n) = int_toString n @ ''n''"
| "json_text (JArr xs) = ''['' @ join_comma (json_elems xs) @ '']''"
| "json_text (JObj kvs) = ''{'' @ join_comma (json_members kvs) @ ''}''"
| "json_elems [] = []"
| "json_elems (x # xs) = json_text x # json_elems xs"
| "json_members [] = []"
| "json_members ((k, v) # kvs) = ([CHR 0x22] @ k @ [CHR 0x22] @ '':'' @ json_text v) # json_members kvs"

definition parse_atom :: "string \<Rightarrow> (jsval \<times> string) option" where
  "parse_atom s =
     (if take 4 s = ''null'' then Some (JNull, drop 4 s)
      else if take 4 s = ''true'' then Some (JBool True, drop 4 s)
      else if take 5 s = ''false'' then Some (JBool False, drop 5 s)
      else if take 1 s = [CHR 0x22] then
        Some (JStr (takeWhile (\<lambda>c. c \<noteq> CHR 0x22) (drop 1 s)),
              drop 1 (dropWhile (\<lambda>c. c \<noteq> CHR 0x22) (drop 1 s)))
      else if take 2 s = ''[]'' then Some (JArr [], drop 2 s)
      else if take 2 s = ''{}'' then Some (JObj [], drop 2 s)
      else if take 1 s = ''-'' \<and> all_digits (takeWhile is_digit (drop 1 s)) then
        Some (JNum (- int (digits_value (takeWhile is_digit (drop 1 s)))),
              dropWhile is_digit (drop 1 s))
      else if all_digits (takeWhile is_digit s) then
        Some (JNum (int (digits_value (takeWhile is_digit s))), dropWhile is_digit s)
      else None)"

definition parse_key :: "string \<Rightarrow> (string \<times> string) option" where
  "parse_key s =
     (if take 1 s = [CHR 0x22] \<and>
         take 1 (drop 1 (dropWhile (\<lambda>c. c \<noteq> CHR 0x22) (drop 1 s))) = '':''
      then Some (takeWhile (\<lambda>c. c \<noteq> CHR 0x22) (drop 1 s),
                 drop 2 (dropWhile (\<lambda>c. c \<noteq> CHR 0x22) (drop 1 s)))
      else None)"

fun parse_value :: "nat \<Rightarrow> string \<Rightarrow> (jsval \<times> string) option"
  and parse_elems :: "nat \<Rightarrow> string \<Rightarrow> jsval list \<Rightarrow> (jsval \<times> string) option"
  and parse_members :: "nat \<Rightarrow> string \<Rightarrow> (string \<times> jsval) list \<Rightarrow> (jsval \<times> string) option" where
  "parse_value 0 s = None"
| "parse_value (Suc f) s =
     (case parse_atom s of
        Some r \<Rightarrow> Some r
      | None \<Rightarrow>
          (if take 1 s = ''['' then parse_elems f (drop 1 s) []
           else if take 1 s = ''{'' then parse_members f (drop 1 s) []
           else None))"
| "parse_elems 0 s acc = None"
| "parse_elems (Suc f) s acc =
     (case parse_value f s of
        None \<Rightarrow> None
      | Some (v, r) \<Rightarrow>
          (if take 1 r = '','' then parse_elems f (drop 1 r) (acc @ [v])
           else if take 1 r = '']'' then Some (JArr (acc @ [v]), drop 1 r)
           else None))"
| "parse_members 0 s acc = None"
| "parse_members (Suc f) s acc =
     (case parse_key s of
        None \<Rightarrow> None
      | Some (k, r0) \<Rightarrow>
          (case parse_value f r0 of
             None \<Rightarrow> None
           | Some (v, r) \<Rightarrow>
               (if take 1 r = '','' then parse_members f (drop 1 r) (acc @ [(k, v)])
                else if take 1 r = ''}'' then Some (JObj (acc @ [(k, v)]), drop 1 r)
                else None)))"

definition example_stringify :: "jsval \<Rightarrow> string" where
  "example_stringify v = json_text v"

definition example_parse :: "string \<Rightarrow> jsval" where
  "example_parse s = (case parse_value (Suc (length s)) s of Some (v, []) \<Rightarrow> v | _ \<Rightarrow> JNull)"

definition empty_node :: blockchain where
  "empty_node = \<lparr> bc_version = ''1.0'', bc_transactions = [],
                  bc_storage = \<lparr> main = [], indexStorages = None \<rparr> \<rparr>"



definition genesis_hash :: string where
  "genesis_hash = ''00000'' @ H0"

definition genesis_block :: block where
  "genesis_block = \<lparr> version = Some ''1.0'', index = Some 0, timestamp = Some 0,
       nonce = Some 0, prevHash = Some [], hash = Some genesis_hash, transactions = Some [] \<rparr>"

definition genesis_node :: blockchain where
  "genesis_node = \<lparr> bc_version = ''1.0'', bc_transactions = [],
                    bc_storage = \<lparr> main = [(0, genesis_block)], indexStorages = None \<rparr> \<rparr>"

definition pending_node :: blockchain where
  \<comment> \<open>the genesis block is stored and one transaction is pooled\<close>
  "pending_node = genesis_node\<lparr>bc_transactions := [(1, JObj [(''transactionId'', JStr ''t1'')])]\<rparr>"

section \<open>Facts about the store and the engine\<close>

lemma getLastIndex_empty: "main db = [] \<Longrightarrow> getLastIndex db = - 1"
  by (simp add: getLastIndex_def)

lemma getLastIndex_nonempty: "main db \<noteq> [] \<Longrightarrow> getLastIndex db = int (fst (last (main db)))"
  by (cases "main db" rule: rev_cases) (auto simp: getLastIndex_def split: prod.splits)

lemma restoreBlock_last:
  assumes "main db \<noteq> []"
  shows "\<exists>b. restoreBlock db (getLastIndex db) = Some b"
proof -
  have "last (main db) \<in> set (main db)" using assms by simp
  then have "fst (last (main db)) \<in> fst ` set (main db)" by (rule imageI)
  then have "map_of (main db) (fst (last (main db))) \<noteq> None"
    by (simp add: map_of_eq_None_iff)
  then show ?thesis
    using assms by (auto simp: restoreBlock_def getLastIndex_nonempty)
qed

lemma createBlock_number_index: "createBlock now bc (JNum i) n prev h = (None, bc)"
  by (simp add: createBlock_def)

lemma commitProofOfWork_never_persists:
  "snd (commitProofOfWork H stringify now bc idx rootHash n) = bc"
  by (auto simp: commitProofOfWork_def createBlock_number_index Let_def
           split: jsval.splits option.splits)

lemma genesis_example:
  "generateGenesisBlock example_sha256 0 empty_node = Some (Some genesis_block, genesis_node)"
  by code_simp

section \<open>Reachable engine states and the chain invariant\<close>

text \<open>
  The states a node's engine reaches from a fresh store by the pool and block operations.
  \<open>sync_on_empty\<close> says whether \<^verbatim>\<open>setBlocks\<close> may be applied to a store
  that is still empty (the case in which \<^verbatim>\<open>#validateBlocks\<close> checks nothing).
\<close>

inductive engine_reachable ::
  "bool \<Rightarrow> (string \<Rightarrow> string) \<Rightarrow> (jsval \<Rightarrow> string) \<Rightarrow> blockchain \<Rightarrow> bool"
  for sync_on_empty :: bool and H :: "string \<Rightarrow> string" and stringify :: "jsval \<Rightarrow> string" where
  fresh: "bc_transactions bc = [] \<Longrightarrow> main (bc_storage bc) = [] \<Longrightarrow>
          engine_reachable sync_on_empty H stringify bc"
| add: "engine_reachable sync_on_empty H stringify bc \<Longrightarrow>
        engine_reachable sync_on_empty H stringify (addTransaction bc t)"
| genesis: "engine_reachable sync_on_empty H stringify bc \<Longrightarrow>
            generateGenesisBlock H now bc = Some (b, bc') \<Longrightarrow>
            engine_reachable sync_on_empty H stringify bc'"
| commit: "engine_reachable sync_on_empty H stringify bc \<Longrightarrow>
           engine_reachable sync_on_empty H stringify (snd (commitBlock H stringify now bc))"
| pow: "engine_reachable sync_on_empty H stringify bc \<Longrightarrow>
        engine_reachable sync_on_empty H stringify
          (snd (commitProofOfWork H stringify now bc idx rootHash n))"
| sync: "engine_reachable sync_on_empty H stringify bc \<Longrightarrow>
         sync_on_empty \<or> main (bc_storage bc) \<noteq> [] \<Longrightarrow>
         engine_reachable sync_on_empty H stringify (snd (setBlocks H stringify bc newValue))"

text \<open>
  The invariant behind the hash chain: the keys are \<open>0, 1, \<dots>\<close> without gaps, every
  stored block has a hash, each block's previous hash is the hash of the block before it,
  and block 0 carries the hash of the genesis block.
\<close>

definition chain_inv :: "(string \<Rightarrow> string) \<Rightarrow> keyspace \<Rightarrow> bool" where
  "chain_inv H db \<longleftrightarrow>
     map fst db = [0..<length db] \<and>
     (\<forall>i < length db. hash (snd (db ! i)) \<noteq> None) \<and>
     (\<forall>i. Suc i < length db \<longrightarrow> prevHash (snd (db ! Suc i)) = hash (snd (db ! i))) \<and>
     (db \<noteq> [] \<longrightarrow> (\<exists>n. findNonce H [] H0 = Some n \<and>
                       hash (snd (db ! 0)) = Some (generateHash H (int n) [] H0)))"

lemma chain_inv_empty: "chain_inv H []"
  by (simp add: chain_inv_def)

lemma put_append:
  assumes "map fst db = [0..<length db]"
  shows "put (length db) v db = db @ [(length db, v)]"
proof -
  have "\<forall>x \<in> set db. fst x < length db"
  proof
    fix x assume "x \<in> set db"
    then have "fst x \<in> set (map fst db)" by simp
    then show "fst x < length db" using assms by simp
  qed
  then have "filter (\<lambda>(k', _). k' < length db) db = db"
        and "filter (\<lambda>(k', _). length db < k') db = []"
    by (auto simp: filter_id_conv filter_empty_conv)
  then show ?thesis by (simp add: put_def)
qed

lemma keys_nth:
  assumes "map fst db = [0..<length db]" "i < length db"
  shows "fst (db ! i) = i"
proof -
  have "map fst db ! i = [0..<length db] ! i" using assms(1) by simp
  then show ?thesis using assms(2) by simp
qed

lemma put_head:
  assumes "map fst db = [0..<length db]" "db \<noteq> []"
  shows "put 0 v db = (0, v) # tl db"
proof -
  obtain g rest where db: "db = g # rest" using assms(2) by (cases db) auto
  have g: "fst g = 0" using keys_nth[OF assms(1), of 0] db by simp
  have "\<forall>x \<in> set rest. 0 < fst x"
  proof
    fix x assume "x \<in> set rest"
    then obtain j where j: "j < length rest" "rest ! j = x" by (auto simp: in_set_conv_nth)
    then have "fst (db ! Suc j) = Suc j" using keys_nth[OF assms(1), of "Suc j"] db by simp
    then show "0 < fst x" using j db by simp
  qed
  then have "filter (\<lambda>(k', _). 0 < k') rest = rest"
    by (auto simp: filter_id_conv)
  then show ?thesis using g db by (simp add: put_def case_prod_unfold)
qed

lemma chain_inv_genesis:
  assumes "chain_inv H db" "findNonce H [] H0 = Some n"
    and "hash g = Some (generateHash H (int n) [] H0)"
  shows "chain_inv H (put 0 g db)"
proof (cases "db = []")
  case True
  then show ?thesis using assms by (simp add: put_def chain_inv_def)
next
  case False
  from assms(1) have keys: "map fst db = [0..<length db]" by (simp add: chain_inv_def)
  have p: "put 0 g db = (0, g) # tl db" using put_head[OF keys False] .
  obtain g0 rest where db: "db = g0 # rest" using False by (cases db) auto
  have g0: "hash (snd g0) = Some (generateHash H (int n) [] H0)"
    using assms(1,2) db by (auto simp: chain_inv_def)
  have "fst g0 = 0" using keys_nth[OF keys, of 0] db by simp
  then have "chain_inv H ((0, g) # rest)"
    using assms db g0 unfolding chain_inv_def
    apply (intro conjI)
       apply simp
      apply (metis length_Cons nth_Cons_0 nth_Cons_Suc not0_implies_Suc option.distinct(1) snd_conv)
     apply (metis length_Cons nth_Cons_0 nth_Cons_Suc not0_implies_Suc snd_conv)
    apply simp
    done
  then show ?thesis using p db by simp
qed

lemma chain_inv_append:
  assumes "chain_inv H db" "db \<noteq> []" "hash v \<noteq> None" "prevHash v = hash (snd (last db))"
  shows "chain_inv H (put (length db) v db)"
proof -
  from assms(1) have keys: "map fst db = [0..<length db]" by (simp add: chain_inv_def)
  have p: "put (length db) v db = db @ [(length db, v)]" using put_append[OF keys] .
  have l: "last db = db ! (length db - 1)" using assms(2) by (simp add: last_conv_nth)
  have "chain_inv H (db @ [(length db, v)])"
    unfolding chain_inv_def
  proof (intro conjI allI impI)
    show "map fst (db @ [(length db, v)]) = [0..<length (db @ [(length db, v)])]"
      using keys by simp
  next
    fix i assume "i < length (db @ [(length db, v)])"
    then show "hash (snd ((db @ [(length db, v)]) ! i)) \<noteq> None"
      using assms(1,3) by (cases "i < length db") (auto simp: nth_append chain_inv_def)
  next
    fix i assume i: "Suc i < length (db @ [(length db, v)])"
    show "prevHash (snd ((db @ [(length db, v)]) ! Suc i)) = hash (snd ((db @ [(length db, v)]) ! i))"
    proof (cases "Suc i < length db")
      case True
      then show ?thesis using assms(1) by (simp add: nth_append chain_inv_def)
    next
      case False
      with i have "Suc i = length db" by simp
      then have "length db - 1 = i" "\<not> Suc i < length db" "i < length db" by simp_all
      then show ?thesis using assms(4) l by (simp add: nth_append)
    qed
  next
    show "\<exists>n. findNonce H [] H0 = Some n \<and>
           hash (snd ((db @ [(length db, v)]) ! 0)) = Some (generateHash H (int n) [] H0)"
      using assms(1,2) by (simp add: nth_append chain_inv_def)
  qed
  then show ?thesis using p by simp
qed


lemma stored_block_fields [simp]:
  "hash (stored_block b) = hash b" "prevHash (stored_block b) = prevHash b"
  "index (stored_block b) = index b"
  by (simp_all add: stored_block_def)

lemma storeBlock_main:
  "index b = Some i \<Longrightarrow> main (storeBlock db b) = put i (stored_block b) (main db)"
  by (simp add: storeBlock_def)

lemma last_block:
  assumes "map fst db = [0..<length db]" "db \<noteq> []" "main ldb = db"
  shows "getLastIndex ldb = int (length db) - 1"
    and "restoreBlock ldb (getLastIndex ldb) = Some (snd (last db))"
proof -
  have l: "last db = db ! (length db - 1)" using assms(2) by (simp add: last_conv_nth)
  have k: "fst (last db) = length db - 1"
    using keys_nth[OF assms(1), of "length db - 1"] assms(2) l by simp
  show g: "getLastIndex ldb = int (length db) - 1"
    using assms(2,3) k by (cases db) (simp_all add: getLastIndex_nonempty)
  have "distinct (map fst db)" using assms(1) by simp
  moreover have "(fst (last db), snd (last db)) \<in> set db" using assms(2) by simp
  ultimately have "map_of db (fst (last db)) = Some (snd (last db))"
    by (rule map_of_is_SomeI)
  then show "restoreBlock ldb (getLastIndex ldb) = Some (snd (last db))"
    using assms(2,3) k by (simp add: restoreBlock_def getLastIndex_nonempty)
qed

lemma inv_add: "bc_storage (addTransaction bc t) = bc_storage bc"
  by (simp add: addTransaction_def split: jsval.splits)

lemma inv_genesis:
  assumes "chain_inv H (main (bc_storage bc))" "generateGenesisBlock H now bc = Some (b, bc')"
  shows "chain_inv H (main (bc_storage bc'))"
proof -
  from assms(2) obtain n where n: "findNonce H [] H0 = Some n"
    by (auto simp: generateGenesisBlock_def split: option.splits)
  with assms(2) have "main (bc_storage bc') =
      put 0 (stored_block \<lparr> version = Some (bc_version bc), index = Some 0,
                        timestamp = Some now, nonce = Some (int n), prevHash = Some [],
                        hash = Some (generateHash H (int n) [] H0),
                        transactions = Some (map snd (bc_transactions bc)) \<rparr>)
        (main (bc_storage bc))"
    by (auto simp: generateGenesisBlock_def createBlock_def Let_def storeBlock_main)
  then show ?thesis
    using chain_inv_genesis[OF assms(1) n] by simp
qed

lemma inv_commit:
  assumes "chain_inv H (main (bc_storage bc))"
  shows "chain_inv H (main (bc_storage (snd (commitBlock H stringify now bc))))"
proof (cases "main (bc_storage bc) = []")
  case True
  then have "restoreBlock (bc_storage bc) (getLastIndex (bc_storage bc)) = None"
    by (simp add: getLastIndex_empty restoreBlock_def)
  then show ?thesis using assms by (simp add: commitBlock_def Let_def)
next
  case False
  let ?db = "main (bc_storage bc)"
  from assms have keys: "map fst ?db = [0..<length ?db]" by (simp add: chain_inv_def)
  note lb = last_block[OF keys False refl]
  have hl: "hash (snd (last ?db)) \<noteq> None"
    using assms False by (simp add: chain_inv_def last_conv_nth)
  then obtain p where p: "hash (snd (last ?db)) = Some p" by auto
  show ?thesis
  proof (cases "bc_transactions bc = [] \<or>
                getRootHash H stringify (map snd (bc_transactions bc)) = None")
    case True
    then show ?thesis using assms lb by (auto simp: commitBlock_def Let_def)
  next
    case False
    then obtain r where r: "getRootHash H stringify (map snd (bc_transactions bc)) = Some r"
      and ne: "bc_transactions bc \<noteq> []" by auto
    have n: "nat (int (length ?db) - 1 + 1) = length ?db" by simp
    have "main (bc_storage (snd (commitBlock H stringify now bc))) =
          put (length ?db)
            (stored_block \<lparr> version = Some (bc_version bc), index = Some (length ?db),
                        timestamp = Some now, nonce = Some 0, prevHash = Some p,
                        hash = Some (generateHash H 0 p r),
                        transactions = Some (map snd (bc_transactions bc)) \<rparr>) ?db"
      using ne r lb p n
      by (simp add: commitBlock_def Let_def createBlock_def storeBlock_main)
    then show ?thesis
      using chain_inv_append[OF assms \<open>?db \<noteq> []\<close>, of
              "stored_block \<lparr> version = Some (bc_version bc), index = Some (length ?db),
                        timestamp = Some now, nonce = Some 0, prevHash = Some p,
                        hash = Some (generateHash H 0 p r),
                        transactions = Some (map snd (bc_transactions bc)) \<rparr>"] p
      by simp
  qed
qed

lemma inv_fold_store:
  assumes "chain_inv H (main ldb)" "main ldb \<noteq> []"
    and "chain_passes H stringify (int (length (main ldb)) - 1) (hash (snd (last (main ldb)))) bs"
  shows "chain_inv H (main (fold (\<lambda>b d. storeBlock d b) bs ldb))"
  using assms
proof (induction bs arbitrary: ldb)
  case Nil
  then show ?case by simp
next
  case (Cons b bs)
  let ?db = "main ldb"
  from Cons.prems(1) have keys: "map fst ?db = [0..<length ?db]" by (simp add: chain_inv_def)
  from Cons.prems(3) have bp: "block_passes H stringify (int (length ?db) - 1) (hash (snd (last ?db))) b"
    and rest: "chain_passes H stringify (int (length ?db)) (hash b) bs" by simp_all
  from bp have i: "index b = Some (length ?db)" and h: "hash b \<noteq> None"
    and p: "prevHash b = hash (snd (last ?db))"
    by (auto simp: block_passes_def split: option.splits)
  have m: "main (storeBlock ldb b) = ?db @ [(length ?db, stored_block b)]"
    using i by (simp add: storeBlock_main put_append[OF keys])
  have inv': "chain_inv H (main (storeBlock ldb b))"
    using chain_inv_append[OF Cons.prems(1,2), of "stored_block b"] h p i
    by (simp add: storeBlock_main)
  have "chain_inv H (main (fold (\<lambda>b d. storeBlock d b) bs (storeBlock ldb b)))"
  proof (rule Cons.IH[OF inv'])
    show "main (storeBlock ldb b) \<noteq> []" using m by simp
    show "chain_passes H stringify (int (length (main (storeBlock ldb b))) - 1)
            (hash (snd (last (main (storeBlock ldb b))))) bs"
      using rest m by simp
  qed
  then show ?case by simp
qed

lemma inv_sync:
  assumes "chain_inv H (main (bc_storage bc))" "main (bc_storage bc) \<noteq> []"
  shows "chain_inv H (main (bc_storage (snd (setBlocks H stringify bc newValue))))"
proof -
  let ?ldb = "bc_storage bc"
  let ?db = "main ?ldb"
  let ?bs = "remaining ?ldb newValue"
  from assms have keys: "map fst ?db = [0..<length ?db]" by (simp add: chain_inv_def)
  note lb = last_block[OF keys assms(2) refl]
  have ne: "getLastIndex ?ldb \<noteq> - 1" using lb(1) assms(2) by (cases ?db) auto
  show ?thesis
  proof (cases "validateBlocks H stringify ?ldb ?bs")
    case None
    then have "validateLoop H stringify (int (length ?db) - 1) (hash (snd (last ?db))) ?bs = None"
      using lb ne by (simp add: validateBlocks_def Let_def)
    then have "chain_passes H stringify (int (length ?db) - 1) (hash (snd (last ?db))) ?bs"
      by (simp add: validateLoop_chain_passes)
    then have "chain_inv H (main (fold (\<lambda>b d. storeBlock d b) ?bs ?ldb))"
      using inv_fold_store[OF assms] by blast
    then show ?thesis
      using None assms(1) by (simp add: setBlocks_def storeBlocks_def Let_def remaining_def)
  next
    case (Some e)
    then show ?thesis
      using assms(1) by (simp add: setBlocks_def storeBlocks_def Let_def remaining_def)
  qed
qed

lemma reachable_chain_inv:
  "engine_reachable False H stringify bc \<Longrightarrow> chain_inv H (main (bc_storage bc))"
proof (induction rule: engine_reachable.induct)
  case (fresh bc)
  then show ?case by (simp add: chain_inv_empty)
next
  case (add bc t)
  then show ?case by (simp add: inv_add)
next
  case (genesis bc now b bc')
  then show ?case using inv_genesis by blast
next
  case (commit bc now)
  then show ?case using inv_commit by blast
next
  case (pow bc now idx rootHash n)
  then show ?case by (simp add: commitProofOfWork_never_persists)
next
  case (sync bc newValue)
  then show ?case using inv_sync by blast
qed

lemma chain_inv_lookup:
  assumes "chain_inv H db" "map_of db i = Some a"
  shows "i < length db \<and> a = snd (db ! i)"
proof -
  from assms(1) have keys: "map fst db = [0..<length db]" by (simp add: chain_inv_def)
  from assms(2) have "(i, a) \<in> set db" by (rule map_of_SomeD)
  then obtain j where j: "j < length db" "db ! j = (i, a)" by (auto simp: in_set_conv_nth)
  then have "i = j" using keys_nth[OF keys, of j] by simp
  then show ?thesis using j by simp
qed


definition orphan0 :: block where
  "orphan0 = \<lparr> version = Some ''1.0'', index = Some 0, timestamp = Some 0, nonce = Some 0,
               prevHash = Some [], hash = Some ''aa'', transactions = Some [] \<rparr>"

definition orphan1 :: block where
  "orphan1 = \<lparr> version = Some ''1.0'', index = Some 1, timestamp = Some 0, nonce = Some 0,
               prevHash = Some ''bb'', hash = Some ''cc'', transactions = Some [] \<rparr>"

definition forked_node :: blockchain where
  "forked_node = empty_node\<lparr>bc_storage :=
                   \<lparr>main = [(0, orphan0), (1, orphan1)], indexStorages = None\<rparr>\<rparr>"

definition second_block :: block where
  "second_block = \<lparr> version = Some ''1.0'', index = Some 1, timestamp = Some 1,
      nonce = Some 0, prevHash = Some genesis_hash,
      hash = Some (example_sha256 (genesis_hash @ ''0'' @
               example_sha256 (example_stringify (JObj [(''transactionId'', JStr ''t1'')])))),
      transactions = Some [JObj [(''transactionId'', JStr ''t1'')]] \<rparr>"

definition committed_node :: blockchain where
  "committed_node = snd (commitBlock example_sha256 example_stringify 1 pending_node)"

lemma forked_example:
  "snd (setBlocks example_sha256 example_stringify empty_node [orphan0, orphan1]) = forked_node"
  by code_simp

lemma pending_example:
  "addTransaction genesis_node (1, JObj [(''transactionId'', JStr ''t1'')]) = pending_node"
  by code_simp

section \<open>Canonical values of the serializer\<close>

text \<open>
  The values that survive \<^verbatim>\<open>serialize\<close> followed by \<^verbatim>\<open>deserialize\<close>: a
  BigInt occurs only as the value of a key \<^verbatim>\<open>index\<close> and is not negative, and no
  other value of a key \<^verbatim>\<open>index\<close> converts to a string of digits. \<open>key\<close> is the
  property under which the value sits (the empty string at the root, the position inside
  an array).
\<close>

fun canonical :: "string \<Rightarrow> jsval \<Rightarrow> bool"
  and canonical_elems :: "nat \<Rightarrow> jsval list \<Rightarrow> bool"
  and canonical_props :: "(string \<times> jsval) list \<Rightarrow> bool" where
  "canonical key (JBig n) = (key = ''index'' \<and> 0 \<le> n)"
| "canonical key (JArr xs) =
     (canonical_elems 0 xs \<and> \<not> (key = ''index'' \<and> all_digits (toStringJS (JArr xs))))"
| "canonical key (JObj kvs) = canonical_props kvs"
| "canonical key JNull = True"
| "canonical key (JBool b) = True"
| "canonical key (JNum n) = (\<not> (key = ''index'' \<and> all_digits (toStringJS (JNum n))))"
| "canonical key (JStr s) = (\<not> (key = ''index'' \<and> all_digits s))"
| "canonical_elems i [] = True"
| "canonical_elems i (x # xs) = (canonical (dec i) x \<and> canonical_elems (Suc i) xs)"
| "canonical_props [] = True"
| "canonical_props ((k, v) # kvs) = (canonical k v \<and> canonical_props kvs)"

lemma of_char_digit_char: "d < 10 \<Longrightarrow> (of_char (digit_char d) :: nat) = 48 + d"
  by (simp add: digit_char_def)

lemma is_digit_digit_char: "d < 10 \<Longrightarrow> is_digit (digit_char d)"
  by (simp add: is_digit_def of_char_digit_char)

lemma digits_value_snoc:
  "digits_value (s @ [c]) = 10 * digits_value s + ((of_char c :: nat) - 48)"
  by (simp add: digits_value_def)

lemma dec_digits: "all_digits (dec n) \<and> digits_value (dec n) = n"
proof (induction n rule: dec.induct)
  case (1 n)
  show ?case
  proof (cases "n < 10")
    case True
    then show ?thesis
      by (simp add: dec.simps[of n] all_digits_def is_digit_digit_char digits_value_def
                    of_char_digit_char)
  next
    case False
    with 1 have ih: "all_digits (dec (n div 10))" "digits_value (dec (n div 10)) = n div 10"
      by simp_all
    have m: "n mod 10 < 10" by simp
    show ?thesis
      using False ih m
      by (simp add: dec.simps[of n] all_digits_def is_digit_digit_char digits_value_snoc
                    of_char_digit_char)
  qed
qed

lemma reviver_bigint:
  "0 \<le> n \<Longrightarrow> reviver ''index'' (JStr (int_toString n)) = JBig n"
  using dec_digits[of "nat n"] by (simp add: reviver_def int_toString_def)

lemma canonical_roundtrip:
  "(canonical key x \<longrightarrow> walk key (replaceBigInt x) = x)"
  "(canonical_elems i xs \<longrightarrow> walk_elems i (map replaceBigInt xs) = xs)"
  "(canonical_props kvs \<longrightarrow> walk_props (map (\<lambda>(k, v). (k, replaceBigInt v)) kvs) = kvs)"
proof (induction key x and i xs and kvs rule: canonical_canonical_elems_canonical_props.induct)
  case (1 key n)
  then show ?case by (auto simp: reviver_bigint)
next
  case (2 key xs)
  then show ?case by (auto simp: reviver_def)
next
  case (3 key kvs)
  then show ?case by (auto simp: reviver_def all_digits_def is_digit_def)
next
  case (4 key)
  then show ?case by (auto simp: reviver_def all_digits_def is_digit_def)
next
  case (5 key b)
  then show ?case by (auto simp: reviver_def all_digits_def is_digit_def)
next
  case (6 key n)
  then show ?case by (auto simp: reviver_def)
next
  case (7 key s)
  then show ?case by (auto simp: reviver_def)
qed auto

definition example_block_value :: jsval where
  "example_block_value =
     JObj [(''version'', JStr ''1.0''), (''index'', JBig 1), (''timestamp'', JNum 7),
           (''nonce'', JNum 0), (''prevHash'', JStr ''ab''), (''hash'', JStr ''cd''),
           (''transactions'',
              JArr [JObj [(''transactionId'', JStr ''t1''), (''tradingDate'', JNum 7)]])]"

section \<open>The node orchestrator's \<^verbatim>\<open>addTransaction\<close> (\<^verbatim>\<open>server.js\<close>)\<close>

text \<open>
  The argument is a single object or an array of objects; an array is itself an object
  and can carry named properties of its own, kept next to its elements. The call
  changes the objects it is given, so the model returns the argument as it is afterwards
  together with the new server state.
\<close>

record server =
  processingConsensus :: bool
  transactionBacklog :: "obj list"
  srv_blockchain :: blockchain

datatype request =
    One obj
  | Several "obj list" "(string \<times> jsval) list"

definition hasTransactionId :: "jsval \<Rightarrow> bool" where
  "hasTransactionId v = (case getProp v ''transactionId'' of None \<Rightarrow> False | Some JNull \<Rightarrow> False | Some _ \<Rightarrow> True)"

definition hasTemp :: "jsval \<Rightarrow> bool" where
  "hasTemp v = (case getProp v ''@temp'' of None \<Rightarrow> False | Some JNull \<Rightarrow> False | Some _ \<Rightarrow> True)"

definition setProp :: "jsval \<Rightarrow> string \<Rightarrow> jsval \<Rightarrow> jsval" where
  "setProp v k x = (case v of JObj kvs \<Rightarrow> JObj (AList.update k x kvs) | _ \<Rightarrow> v)"

definition dispatch :: "server \<Rightarrow> obj \<Rightarrow> server" where
  "dispatch srv transaction =
     (if processingConsensus srv \<or> hasTemp (snd transaction)
      then srv\<lparr>transactionBacklog := transactionBacklog srv @ [transaction]\<rparr>
      else srv\<lparr>srv_blockchain := addTransaction (srv_blockchain srv) transaction\<rparr>)"

definition server_addTransaction ::
  "int \<Rightarrow> server \<Rightarrow> request \<Rightarrow> bool option \<Rightarrow> error + (request \<times> server)" where
  "server_addTransaction now srv transaction temporary =
     (case transaction of
        One t \<Rightarrow>
          (if snd t = JNull then Inl TypeError
           else
             (let t' = (if hasTransactionId (snd t) \<and> temporary = Some True
                        then (fst t, setProp (snd t) ''@temp'' (JNum now)) else t)
              in Inr (One t', dispatch srv t')))
      | Several entries props \<Rightarrow>
          (if JNull \<in> snd ` set entries then Inl TypeError
           else
             (let props' = fold (\<lambda>entry ps.
                                   if hasTransactionId (snd entry) \<and> temporary = Some True
                                   then AList.update ''@temp'' (JNum now) ps else ps)
                             entries props
              in Inr (Several entries props', fold (\<lambda>t s. dispatch s t) entries srv))))"

definition idle_server :: server where
  "idle_server = \<lparr> processingConsensus = False, transactionBacklog = [],
                   srv_blockchain = genesis_node \<rparr>"

lemma addTransaction_single_annotated:
  "server_addTransaction 7 idle_server
     (One (1, JObj [(''transactionId'', JStr ''t1'')])) (Some True) =
   Inr (One (1, JObj [(''transactionId'', JStr ''t1''), (''@temp'', JNum 7)]),
        idle_server\<lparr>transactionBacklog :=
          [(1, JObj [(''transactionId'', JStr ''t1''), (''@temp'', JNum 7)])]\<rparr>)"
  by code_simp

section \<open>The consensus engine (\<^verbatim>\<open>consensus/raft.js\<close>)\<close>

text \<open>
  Node identifiers are numbers. \<^verbatim>\<open>#votes\<close> is a \<^verbatim>\<open>Set\<close>, kept as a list
  without repetitions in insertion order; \<^verbatim>\<open>#provisionalBlocks\<close> is a \<^verbatim>\<open>Map\<close>,
  kept as an association list in insertion order. Sequences are BigInts.
\<close>

datatype raftState = Follower | Candidate | Leader

record pentry =
  p_transaction :: jsval
  p_type :: string
  consensus :: nat
  owner :: nat

record raft =
  selfId :: nat
  raftState :: raftState
  votedId :: "nat option"
  leaderId :: "nat option"
  votes :: "nat list"
  nodes :: "nat list"
  currentTerm :: nat
  provisionalBlocksequence :: nat
  lostProvisionalBlocksequences :: "nat list"
  provisionalBlocks :: "(nat \<times> pentry) list"
  transactionBacklog_raft :: "jsval list"
  temporaryTransactionBacklog :: "jsval list"
  commitedTransactionBacklog :: "jsval list"

text \<open>The payloads on the wire. A field that may be \<^verbatim>\<open>null\<close> or missing is an option.\<close>

record entryData =
  e_type :: "string option"
  e_sequence :: "nat option"
  e_transaction :: "jsval option"
  e_sequences :: "nat list option"

record voteData =
  v_id :: "nat option"
  v_term :: "nat option"

record appendData =
  a_id :: "nat option"
  a_term :: "nat option"
  a_sequence :: "nat option"
  a_entry :: "entryData option"

record votedData =
  granted :: "bool option"
  voted_from :: "nat option"
  voted_term :: "nat option"

record appendedData =
  appended_from :: "nat option"
  appended_term :: "nat option"
  appended_entry :: "entryData option"

datatype body =
    VoteCommand voteData
  | AppendCommand appendData
  | AddTransactionCommand jsval
  | AddTemporaryTransactionCommand jsval
  | CommitTransactionCommand jsval
  | VotedData votedData
  | AppendedData appendedData

text \<open>
  What a handler does besides changing the node: replies to the sender, broadcasts to
  the configured peers, sends to one node, hands a drained entry to the orchestrator
  (\<^verbatim>\<open>addTransaction\<close> or \<^verbatim>\<open>commitTransaction\<close>, by the entry's type), seals a
  block, notifies observers, re-arms the timer (\<^verbatim>\<open>heartbeat()\<close>), or schedules a
  forwarding retry.
\<close>

datatype effect =
    Reply body
  | Broadcast body
  | SendToNode nat body
  | Drain string jsval
  | CreateBlock
  | NotifyLastBlock
  | Heartbeat
  | WaitAndForward
  | Raise error


definition sequenceOnly :: "nat \<Rightarrow> entryData" where
  "sequenceOnly s = \<lparr> e_type = None, e_sequence = Some s, e_transaction = None, e_sequences = None \<rparr>"

definition appendedReply :: "raft \<Rightarrow> nat \<Rightarrow> body" where
  "appendedReply n s =
     AppendedData \<lparr> appended_from = Some (selfId n), appended_term = Some (currentTerm n),
                    appended_entry = Some (sequenceOnly s) \<rparr>"

subsection \<open>The timer\<close>





subsection \<open>\<^verbatim>\<open>handleCommand\<close>\<close>

definition handleVote :: "raft \<Rightarrow> voteData \<Rightarrow> raft \<times> effect list" where
  "handleVote n d =
     (case (v_id d, v_term d) of
        (Some c, Some t) \<Rightarrow>
          (if t < currentTerm n then (n, [])
           else
             (let n1 = (if currentTerm n < t then n\<lparr>currentTerm := t, votedId := None\<rparr> else n)
              in if votedId n1 \<noteq> None \<and> votedId n1 \<noteq> Some c
                 then (n1, [Reply (VotedData \<lparr> granted = Some False, voted_from = None,
                                              voted_term = Some (currentTerm n1) \<rparr>)])
                 else (n1\<lparr>votedId := Some c, raftState := Follower\<rparr>,
                       [Reply (VotedData \<lparr> granted = Some True, voted_from = Some (selfId n1),
                                           voted_term = Some (currentTerm n1) \<rparr>),
                        Heartbeat])))
      | _ \<Rightarrow> (n, []))"

text \<open>
  The part of the \<^verbatim>\<open>append\<close> branch that synchronises one provisional entry
  (\<^verbatim>\<open>type\<close>, \<^verbatim>\<open>sequence\<close> and \<^verbatim>\<open>transaction\<close> all present). It returns
  \<open>True\<close> when the handler returns early, before re-arming the timer.
\<close>

definition syncEntry ::
  "raft \<Rightarrow> nat \<Rightarrow> string \<Rightarrow> nat \<Rightarrow> jsval \<Rightarrow> raft \<times> effect list \<times> bool" where
  "syncEntry n sender type sequence transaction =
     (if sequence \<le> provisionalBlocksequence n \<and>
         sequence \<notin> set (lostProvisionalBlocksequences n)
      then (n, [Reply (appendedReply n sequence)], True)
      else
        (let n1 = (if provisionalBlocksequence n < sequence
                   then n\<lparr> lostProvisionalBlocksequences :=
                              lostProvisionalBlocksequences n @
                                [provisionalBlocksequence n + 1 ..< sequence],
                            provisionalBlocksequence := sequence \<rparr>
                   else if sequence \<in> set (lostProvisionalBlocksequences n)
                   then n\<lparr> lostProvisionalBlocksequences :=
                              remove1 sequence (lostProvisionalBlocksequences n) \<rparr>
                   else n);
             n2 = n1\<lparr> provisionalBlocks :=
                        AList.update sequence
                          \<lparr> p_transaction = transaction, p_type = type, consensus = 1,
                            owner = sender \<rparr>
                          (provisionalBlocks n1) \<rparr>
         in (n2, [Reply (appendedReply n2 sequence)], False)))"

text \<open>
  The block generation instruction (\<^verbatim>\<open>entry.sequences\<close>). Each listed entry is
  drained and deleted in turn; a sequence listed twice is gone at its second visit, and
  reading the missing entry raises.
\<close>

fun drainSequences ::
  "nat list \<Rightarrow> (nat \<times> pentry) list \<Rightarrow> (nat \<times> pentry) list \<times> effect list \<times> bool" where
  "drainSequences [] blocks = (blocks, [], True)"
| "drainSequences (s # ss) blocks =
     (case map_of blocks s of
        None \<Rightarrow> (blocks, [Raise TypeError], False)
      | Some e \<Rightarrow>
          (let (blocks', effs, ok) = drainSequences ss (AList.delete s blocks)
           in (blocks', Drain (p_type e) (p_transaction e) # effs, ok)))"

definition sealSequences :: "raft \<Rightarrow> nat list \<Rightarrow> raft \<times> effect list \<times> bool" where
  "sealSequences n sequences =
     (if sequences = [] then (n, [], True)
      else if \<exists>s \<in> set sequences. map_of (provisionalBlocks n) s = None then (n, [], True)
      else
        (let (blocks', effs, ok) = drainSequences sequences (provisionalBlocks n)
         in (n\<lparr>provisionalBlocks := blocks'\<rparr>,
             if ok then effs @ [CreateBlock, NotifyLastBlock] else effs,
             False)))"

definition handleAppend :: "raft \<Rightarrow> appendData \<Rightarrow> raft \<times> effect list" where
  "handleAppend n d =
     (case (a_id d, a_term d) of
        (Some sender, Some t) \<Rightarrow>
          (let n1 = (if currentTerm n < t then n\<lparr>raftState := Follower, currentTerm := t\<rparr> else n);
               n2 = (if currentTerm n1 \<le> t then n1\<lparr>leaderId := Some sender\<rparr> else n1)
           in case a_entry d of
                None \<Rightarrow> (n2, [Heartbeat])
              | Some e \<Rightarrow>
                  (if e_type e \<noteq> None \<and> e_sequence e \<noteq> None \<and> e_transaction e \<noteq> None
                   then
                     (let (n3, effs, early) =
                            syncEntry n2 sender (the (e_type e)) (the (e_sequence e))
                              (the (e_transaction e))
                      in (n3, if early then effs else effs @ [Heartbeat]))
                   else
                     (case e_sequences e of
                        None \<Rightarrow> (n2, [Heartbeat])
                      | Some sequences \<Rightarrow>
                          (let (n3, effs, early) = sealSequences n2 sequences
                           in (n3, if early then effs else effs @ [Heartbeat])))))
      | _ \<Rightarrow> (n, []))"








subsection \<open>\<^verbatim>\<open>handleData\<close>\<close>




subsection \<open>The cluster\<close>

text \<open>
  A cluster is the state of every node together with the messages that have been sent.
  A sent message stays available: it may be delivered late, more than once, or never,
  and a crashed node is one that takes no further step. A reply travels back on the
  connection the command came in on, so it is addressed to the sender of the command.
\<close>

record packet =
  src :: nat
  dst :: nat
  payload :: body


fun sends :: "raft \<Rightarrow> nat \<Rightarrow> effect \<Rightarrow> packet set" where
  "sends n requester (Reply b) = {\<lparr> src = selfId n, dst = requester, payload = b \<rparr>}"
| "sends n requester (Broadcast b) =
     (\<lambda>p. \<lparr> src = selfId n, dst = p, payload = b \<rparr>) ` set (nodes n)"
| "sends n requester (SendToNode l b) =
     (if l \<in> set (nodes n) then {\<lparr> src = selfId n, dst = l, payload = b \<rparr>} else {})"
| "sends n requester _ = {}"

definition sendAll :: "raft \<Rightarrow> nat \<Rightarrow> effect list \<Rightarrow> packet set" where
  "sendAll n requester effs = (\<Union>e \<in> set effs. sends n requester e)"






subsection \<open>Example nodes and messages\<close>

definition follower0 :: raft where
  "follower0 = \<lparr> selfId = 2, raftState = Follower, votedId = Some 1, leaderId = Some 1,
                  votes = [], nodes = [1, 3], currentTerm = 1,
                  provisionalBlocksequence = 2, lostProvisionalBlocksequences = [],
                  provisionalBlocks = [], transactionBacklog_raft = [],
                  temporaryTransactionBacklog = [], commitedTransactionBacklog = [] \<rparr>"

definition append5 :: appendData where
  "append5 = \<lparr> a_id = Some 1, a_term = Some 1, a_sequence = None,
               a_entry = Some \<lparr> e_type = Some ''normal'', e_sequence = Some 5,
                                e_transaction = Some (JObj [(''transactionId'', JStr ''t5'')]),
                                e_sequences = None \<rparr> \<rparr>"

definition untyped5 :: appendData where
  "untyped5 = \<lparr> a_id = Some 1, a_term = Some 1, a_sequence = None,
                a_entry = Some \<lparr> e_type = None, e_sequence = Some 5,
                                 e_transaction = Some (JObj [(''transactionId'', JStr ''t5'')]),
                                 e_sequences = None \<rparr> \<rparr>"

lemma handleAppend_entry:
  assumes "a_id d = Some sender" "a_term d = Some t" "a_entry d = Some e"
    and "e_type e = Some ty" "e_sequence e = Some s" "e_transaction e = Some tx"
  shows "handleAppend n d =
     (let n1 = (if currentTerm n < t then n\<lparr>raftState := Follower, currentTerm := t\<rparr> else n);
          n2 = (if currentTerm n1 \<le> t then n1\<lparr>leaderId := Some sender\<rparr> else n1);
          (n3, effs, early) = syncEntry n2 sender ty s tx
      in (n3, if early then effs else effs @ [Heartbeat]))"
  using assms by (simp add: handleAppend_def Let_def)


subsection \<open>Which steps touch the election\<close>



















subsection \<open>Invariants of the election\<close>























lemma sendAll_Nil [simp]: "sendAll n r [] = {}"
  by (simp add: sendAll_def)

lemma sendAll_Cons [simp]: "sendAll n r (e # es) = sends n r e \<union> sendAll n r es"
  by (simp add: sendAll_def)


lemma handleVote_ignored:
  assumes "v_id d = None \<or> v_term d = None"
  shows "handleVote n d = (n, [])"
  using assms by (auto simp: handleVote_def split: option.splits)















subsection \<open>An election in a cluster of three\<close>














section \<open>Block queries (\<^verbatim>\<open>LevelDBStorage.restoreBlocks\<close>)\<close>

text \<open>
  A query and its transaction conditions, as the caller's JSON gives them: every field
  may be missing or of the wrong type, and \<^verbatim>\<open>restoreBlocks\<close> falls back to a
  default then.
\<close>

record condition =
  operation :: "string option"
  ambiguous :: "bool option"
  conditions :: "(string \<times> jsval) list option"

datatype conditionArg = OneCondition condition | ManyConditions "condition list"

record blockQuery =
  q_direction :: "jsval option"
  q_offset :: "jsval option"
  q_limit :: "jsval option"
  q_timestampStart :: "jsval option"
  q_timestampEnd :: "jsval option"
  q_headerOnly :: "jsval option"
  q_transactionCondition :: "conditionArg option"

text \<open>What a query returns per block: the block, or its header when \<^verbatim>\<open>headerOnly\<close> is set.\<close>

datatype emitted =
    FullBlock block
  | HeaderOnly "nat option" "int option" nat

subsection \<open>Operators of the language used by the filter\<close>

fun str_less :: "string \<Rightarrow> string \<Rightarrow> bool" where
  "str_less [] [] = False"
| "str_less [] (y # ys) = True"
| "str_less (x # xs) [] = False"
| "str_less (x # xs) (y # ys) =
     ((of_char x :: nat) < of_char y \<or> (x = y \<and> str_less xs ys))"

definition toPrimitive :: "jsval \<Rightarrow> jsval" where
  "toPrimitive v = (case v of JArr _ \<Rightarrow> JStr (toStringJS v) | JObj _ \<Rightarrow> JStr (toStringJS v)
                            | _ \<Rightarrow> v)"

definition toNumber :: "jsval \<Rightarrow> int option" where
  \<comment> \<open>\<open>None\<close> is NaN; of the numeric strings only digit strings and the empty string are read\<close>
  "toNumber v =
     (case v of
        JNull \<Rightarrow> Some 0
      | JBool b \<Rightarrow> Some (if b then 1 else 0)
      | JNum n \<Rightarrow> Some n
      | JBig n \<Rightarrow> Some n
      | JStr s \<Rightarrow> (if s = [] then Some 0
                   else if all_digits s then Some (int (digits_value s)) else None)
      | _ \<Rightarrow> None)"

definition js_less :: "jsval option \<Rightarrow> jsval option \<Rightarrow> bool" where
  \<comment> \<open>the relational comparison \<^verbatim>\<open>a < b\<close>; \<open>None\<close> is \<^verbatim>\<open>undefined\<close>\<close>
  "js_less a b =
     (case (a, b) of
        (Some x, Some y) \<Rightarrow>
          (case (toPrimitive x, toPrimitive y) of
             (JStr s, JStr t) \<Rightarrow> str_less s t
           | (p, q) \<Rightarrow>
               (case (toNumber p, toNumber q) of
                  (Some m, Some n) \<Rightarrow> m < n
                | _ \<Rightarrow> False))
      | _ \<Rightarrow> False)"

definition strictEquals :: "jsval option \<Rightarrow> jsval \<Rightarrow> bool" where
  \<comment> \<open>\<^verbatim>\<open>a === b\<close> against a value parsed from the query: objects are never identical\<close>
  "strictEquals a b =
     (case a of
        None \<Rightarrow> False
      | Some x \<Rightarrow> (case x of JArr _ \<Rightarrow> False | JObj _ \<Rightarrow> False | _ \<Rightarrow> x = b))"

fun contains :: "string \<Rightarrow> string \<Rightarrow> bool" where
  "contains needle [] = (needle = [])"
| "contains needle (c # cs) = (prefix needle (c # cs) \<or> contains needle cs)"

definition includesJS :: "jsval option \<Rightarrow> jsval \<Rightarrow> error + bool" where
  \<comment> \<open>\<^verbatim>\<open>a.includes(b)\<close>: defined on strings and arrays, a type error elsewhere\<close>
  "includesJS a b =
     (case a of
        Some (JStr s) \<Rightarrow> Inr (contains (toStringJS b) s)
      | Some (JArr xs) \<Rightarrow>
          Inr (case b of JArr _ \<Rightarrow> False | JObj _ \<Rightarrow> False | _ \<Rightarrow> b \<in> set xs)
      | _ \<Rightarrow> Inl TypeError)"

definition isNullish :: "jsval option \<Rightarrow> bool" where
  "isNullish a = (a = None \<or> a = Some JNull)"

subsection \<open>\<^verbatim>\<open>#filterTransactions\<close>\<close>

text \<open>
  For \<^verbatim>\<open>between\<close> the condition keys whose value is not an object with
  \<^verbatim>\<open>begin <= end\<close> are deleted first. The deletion changes the caller's condition
  object; deleting again changes nothing, so the model recomputes it on every call.
\<close>

fun pruneBetween :: "(string \<times> jsval) list \<Rightarrow> error + (string \<times> jsval) list" where
  "pruneBetween [] = Inr []"
| "pruneBetween ((k, v) # rest) =
     (case v of
        JNull \<Rightarrow> Inl TypeError
      | JObj kvs \<Rightarrow>
          (case pruneBetween rest of
             Inl e \<Rightarrow> Inl e
           | Inr rest' \<Rightarrow>
               (if isNullish (getProp v ''begin'') \<or> isNullish (getProp v ''end'') \<or>
                   js_less (getProp v ''end'') (getProp v ''begin'')
                then Inr rest' else Inr ((k, v) # rest')))
      | _ \<Rightarrow> pruneBetween rest)"

fun betweenValid :: "jsval \<Rightarrow> (string \<times> jsval) list \<Rightarrow> bool" where
  "betweenValid entry [] = True"
| "betweenValid entry ((k, v) # rest) =
     (if isNullish (getProp entry k) \<or> js_less (getProp entry k) (getProp v ''begin'') \<or>
         js_less (getProp v ''end'') (getProp entry k)
      then False else betweenValid entry rest)"

fun anyMatch :: "bool \<Rightarrow> jsval \<Rightarrow> (string \<times> jsval) list \<Rightarrow> error + bool" where
  "anyMatch amb entry [] = Inr False"
| "anyMatch amb entry ((k, v) # rest) =
     (if amb
      then (case includesJS (getProp entry k) v of
              Inl e \<Rightarrow> Inl e
            | Inr True \<Rightarrow> Inr True
            | Inr False \<Rightarrow> anyMatch amb entry rest)
      else if strictEquals (getProp entry k) v then Inr True
      else anyMatch amb entry rest)"

fun filterEntries ::
  "bool \<Rightarrow> bool \<Rightarrow> bool \<Rightarrow> (string \<times> jsval) list \<Rightarrow> jsval list \<Rightarrow> error + jsval list" where
  "filterEntries between disjunction amb conds [] = Inr []"
| "filterEntries between disjunction amb conds (entry # rest) =
     (if entry = JNull \<and> conds \<noteq> [] then Inl TypeError
      else
        (case (if between then Inr (betweenValid entry conds)
               else (case anyMatch amb entry conds of
                       Inl e \<Rightarrow> Inl e
                     | Inr m \<Rightarrow> Inr (if m then disjunction else \<not> disjunction))) of
           Inl e \<Rightarrow> Inl e
         | Inr valid \<Rightarrow>
             (case filterEntries between disjunction amb conds rest of
                Inl e \<Rightarrow> Inl e
              | Inr rest' \<Rightarrow> Inr (if valid then entry # rest' else rest'))))"

definition filterOne :: "condition \<Rightarrow> jsval list \<Rightarrow> error + jsval list" where
  "filterOne c txs =
     (case conditions c of
        None \<Rightarrow> Inr txs
      | Some conds \<Rightarrow>
          (let disjunction = (operation c \<noteq> Some ''and'' \<and> operation c \<noteq> Some ''between'');
               between = (operation c = Some ''between'');
               amb = (ambiguous c = Some True)
           in case (if between then pruneBetween conds else Inr conds) of
                Inl e \<Rightarrow> Inl e
              | Inr conds' \<Rightarrow> filterEntries between disjunction amb conds' txs))"

fun filterMany :: "condition list \<Rightarrow> jsval list \<Rightarrow> error + jsval list" where
  "filterMany [] txs = Inr txs"
| "filterMany (c # cs) txs =
     (case filterOne c txs of Inl e \<Rightarrow> Inl e | Inr txs' \<Rightarrow> filterMany cs txs')"

definition filterTransactions :: "jsval list option \<Rightarrow> conditionArg \<Rightarrow> error + jsval list option" where
  \<comment> \<open>the block's transactions may be missing; with conditions present that is a type error\<close>
  "filterTransactions txs0 tc =
     (case tc of
        OneCondition c \<Rightarrow>
          (case conditions c of
             None \<Rightarrow> Inr txs0
           | Some _ \<Rightarrow>
               (case txs0 of
                  None \<Rightarrow> Inl TypeError
                | Some txs \<Rightarrow> map_sum id Some (filterOne c txs)))
      | ManyConditions cs \<Rightarrow>
          (case txs0 of
             None \<Rightarrow> (if list_ex (\<lambda>c. conditions c \<noteq> None) cs then Inl TypeError
                      else Inr None)
           | Some txs \<Rightarrow> map_sum id Some (filterMany cs txs)))"


subsection \<open>The serial scan\<close>

definition splice0 :: "'a list \<Rightarrow> 'a list" where
  \<comment> \<open>\<^verbatim>\<open>array.splice()\<close> without arguments removes nothing\<close>
  "splice0 xs = xs"

definition outside :: "int option \<Rightarrow> int option \<Rightarrow> block \<Rightarrow> bool" where
  \<comment> \<open>the timestamp bounds; a missing timestamp compares false and passes\<close>
  "outside timestampStart timestampEnd b =
     ((case (timestampStart, timestamp b) of (Some s, Some t) \<Rightarrow> t < s | _ \<Rightarrow> False) \<or>
      (case (timestampEnd, timestamp b) of (Some e, Some t) \<Rightarrow> e < t | _ \<Rightarrow> False))"

text \<open>
  The \<^verbatim>\<open>"data"\<close> handler of the read stream, for one entry, given the running
  transaction count. It skips the entry, emits a block, or raises. With
  \<^verbatim>\<open>headerOnly\<close> the block has been replaced by its header before
  \<^verbatim>\<open>block.transactions.length\<close> is read, which raises.
\<close>

datatype scanned = Skip | Emit emitted nat | Raised error

definition onData ::
  "int \<Rightarrow> int \<Rightarrow> int option \<Rightarrow> int option \<Rightarrow> bool \<Rightarrow> conditionArg option
     \<Rightarrow> nat \<Rightarrow> nat \<times> block \<Rightarrow> scanned" where
  "onData offset limit timestampStart timestampEnd headerOnly tc transactionCount kv =
     (if fst kv = 0 then Skip
      else if outside timestampStart timestampEnd (snd kv) then Skip
      else
        (case (case tc of None \<Rightarrow> Inr (transactions (snd kv))
                        | Some c \<Rightarrow> filterTransactions (transactions (snd kv)) c) of
           Inl e \<Rightarrow> Raised e
         | Inr txs \<Rightarrow>
             (if tc \<noteq> None \<and> txs = None then Raised TypeError
              else if tc \<noteq> None \<and> txs = Some [] then Skip
              else if headerOnly then Raised TypeError
              else
                (case txs of
                   None \<Rightarrow> Raised TypeError
                 | Some ts \<Rightarrow>
                     (let ts1 = (if int transactionCount + int (length ts) < offset
                                 then splice0 ts else ts);
                          count = transactionCount + length ts1;
                          ts2 = (if limit < int count then splice0 ts1 else ts1)
                      in Emit (FullBlock ((snd kv)\<lparr>transactions := Some ts2\<rparr>)) count)))))"

fun scan ::
  "(nat \<Rightarrow> nat \<times> block \<Rightarrow> scanned) \<Rightarrow> nat \<Rightarrow> (nat \<times> block) list \<Rightarrow> error + emitted list" where
  "scan f transactionCount [] = Inr []"
| "scan f transactionCount (kv # rest) =
     (case f transactionCount kv of
        Skip \<Rightarrow> scan f transactionCount rest
      | Raised e \<Rightarrow> Inl e
      | Emit b count \<Rightarrow>
          (case scan f count rest of Inl e \<Rightarrow> Inl e | Inr bs \<Rightarrow> Inr (b # bs)))"

definition readStream :: "bool \<Rightarrow> int \<Rightarrow> keyspace \<Rightarrow> keyspace" where
  \<comment> \<open>\<^verbatim>\<open>createReadStream({reverse, limit})\<close>: at most \<open>limit\<close> entries, all for \<open>-1\<close>\<close>
  "readStream reverse limit db =
     (let entries = (if reverse then rev db else db)
      in if limit < 0 then entries else take (nat limit) entries)"

definition restoreBlocksSerially ::
  "leveldb \<Rightarrow> bool \<Rightarrow> int \<Rightarrow> int \<Rightarrow> int option \<Rightarrow> int option \<Rightarrow> bool
     \<Rightarrow> conditionArg option \<Rightarrow> error + emitted list" where
  "restoreBlocksSerially db reverse offset limit timestampStart timestampEnd headerOnly tc =
     scan (onData offset limit timestampStart timestampEnd headerOnly tc) 0
       (readStream reverse limit (main db))"

subsection \<open>The index-assisted path\<close>

text \<open>
  An index entry comes back from \<^verbatim>\<open>deserialize\<close> as a list of values (decimal
  strings, as the BigInts were written). \<^verbatim>\<open>#keyFromIndex\<close> hands each to
  \<^verbatim>\<open>toBufferBE\<close> of the \<^verbatim>\<open>bigint-buffer\<close> package; what that makes of a value
  that is not a BigInt is the parameter \<open>K\<close>, read as the block number whose key
  results (\<open>None\<close> when the result is no key of the store).
\<close>

definition retrieveBlocks :: "(jsval \<Rightarrow> nat option) \<Rightarrow> leveldb \<Rightarrow> jsval list \<Rightarrow> block list" where
  "retrieveBlocks K db blockIndexes =
     List.map_filter (\<lambda>v. case K v of None \<Rightarrow> None | Some k \<Rightarrow> map_of (main db) k) blockIndexes"

definition addUnseen :: "block list \<Rightarrow> block \<Rightarrow> block list" where
  "addUnseen blocks b =
     (if transactions b = None \<or> transactions b = Some [] then blocks
      else if list_ex (\<lambda>c. index c = index b) blocks then blocks
      else blocks @ [b])"

fun byConditions ::
  "(jsval \<Rightarrow> nat option) \<Rightarrow> leveldb \<Rightarrow> (string \<times> (string \<times> jsval list) list) list
     \<Rightarrow> int option \<Rightarrow> int option \<Rightarrow> (string \<times> jsval) list \<Rightarrow> block list
     \<Rightarrow> error + block list" where
  "byConditions K db storages timestampStart timestampEnd [] blocks = Inr blocks"
| "byConditions K db storages timestampStart timestampEnd ((key, v) # rest) blocks =
     (if v = JNull then Inl TypeError
      else
        (let s = (case v of JStr t \<Rightarrow> t | _ \<Rightarrow> toStringJS v)
         in if s = [] then byConditions K db storages timestampStart timestampEnd rest blocks
            else case map_of storages key of
                   None \<Rightarrow> Inl TypeError
                 | Some indexStorage \<Rightarrow>
                     (let blockIndexes = getIndexedBlockIndexes indexStorage s
                      in if blockIndexes = []
                         then byConditions K db storages timestampStart timestampEnd rest blocks
                         else byConditions K db storages timestampStart timestampEnd rest
                                (fold (\<lambda>b acc. addUnseen acc b)
                                   (filter (\<lambda>b. \<not> outside timestampStart timestampEnd b)
                                      (retrieveBlocks K db blockIndexes))
                                   blocks))))"

definition candidates ::
  "(jsval \<Rightarrow> nat option) \<Rightarrow> leveldb \<Rightarrow> (string \<times> (string \<times> jsval list) list) list
     \<Rightarrow> int option \<Rightarrow> int option \<Rightarrow> condition \<Rightarrow> error + block list" where
  "candidates K db storages timestampStart timestampEnd c =
     (case conditions c of
        None \<Rightarrow> Inl TypeError
      | Some conds \<Rightarrow> byConditions K db storages timestampStart timestampEnd conds [])"

fun candidatesOfAll ::
  "(jsval \<Rightarrow> nat option) \<Rightarrow> leveldb \<Rightarrow> (string \<times> (string \<times> jsval list) list) list
     \<Rightarrow> int option \<Rightarrow> int option \<Rightarrow> condition list \<Rightarrow> error + block list" where
  "candidatesOfAll K db storages timestampStart timestampEnd [] = Inr []"
| "candidatesOfAll K db storages timestampStart timestampEnd (c # cs) =
     (case candidates K db storages timestampStart timestampEnd c of
        Inl e \<Rightarrow> Inl e
      | Inr bs \<Rightarrow>
          (case candidatesOfAll K db storages timestampStart timestampEnd cs of
             Inl e \<Rightarrow> Inl e
           | Inr rest \<Rightarrow> Inr (bs @ rest)))"

fun filterBlocks :: "conditionArg \<Rightarrow> block list \<Rightarrow> error + block list" where
  "filterBlocks tc [] = Inr []"
| "filterBlocks tc (b # bs) =
     (case filterTransactions (transactions b) tc of
        Inl e \<Rightarrow> Inl e
      | Inr txs \<Rightarrow>
          (case filterBlocks tc bs of
             Inl e \<Rightarrow> Inl e
           | Inr rest \<Rightarrow> Inr (b\<lparr>transactions := txs\<rparr> # rest)))"

definition blockNumber :: "block \<Rightarrow> int" where
  \<comment> \<open>the sort key; every stored block has an index\<close>
  "blockNumber b = (case index b of None \<Rightarrow> 0 | Some i \<Rightarrow> int i)"

fun headers :: "block list \<Rightarrow> error + emitted list" where
  "headers [] = Inr []"
| "headers (b # bs) =
     (case transactions b of
        None \<Rightarrow> Inl TypeError
      | Some txs \<Rightarrow>
          (case headers bs of
             Inl e \<Rightarrow> Inl e
           | Inr rest \<Rightarrow> Inr (HeaderOnly (index b) (timestamp b) (length txs) # rest)))"

definition restoreBlocksWithIndexes ::
  "(jsval \<Rightarrow> nat option) \<Rightarrow> leveldb \<Rightarrow> bool \<Rightarrow> int \<Rightarrow> int \<Rightarrow> int option \<Rightarrow> int option
     \<Rightarrow> bool \<Rightarrow> conditionArg \<Rightarrow> error + emitted list" where
  "restoreBlocksWithIndexes K db reverse offset limit timestampStart timestampEnd headerOnly tc =
     (case indexStorages db of
        None \<Rightarrow> Inl TypeError
      | Some storages \<Rightarrow>
          (case (case tc of
                   ManyConditions cs \<Rightarrow>
                     candidatesOfAll K db storages timestampStart timestampEnd cs
                 | OneCondition c \<Rightarrow> candidates K db storages timestampStart timestampEnd c) of
             Inl e \<Rightarrow> Inl e
           | Inr blocks \<Rightarrow>
               (case filterBlocks tc blocks of
                  Inl e \<Rightarrow> Inl e
                | Inr filtered \<Rightarrow>
                    (let sorted = (if reverse then sort_key (\<lambda>b. - blockNumber b) filtered
                                   else sort_key blockNumber filtered);
                         limited = (if limit \<noteq> - 1 then take (nat limit) sorted else sorted)
                     in if headerOnly then headers limited
                        else Inr (map FullBlock limited)))))"

subsection \<open>\<^verbatim>\<open>restoreBlocks\<close>\<close>

definition indexable :: "(string \<times> (string \<times> jsval list) list) list \<Rightarrow> condition \<Rightarrow> bool" where
  "indexable storages c =
     (operation c \<noteq> Some ''between'' \<and>
      (case conditions c of
         None \<Rightarrow> True
       | Some conds \<Rightarrow> list_all (\<lambda>key. map_of storages key \<noteq> None) (map fst conds)))"

definition positive :: "jsval option \<Rightarrow> int option" where
  \<comment> \<open>a number greater than 0, else nothing\<close>
  "positive v = (case v of Some (JNum n) \<Rightarrow> (if 0 < n then Some n else None) | _ \<Rightarrow> None)"

definition restoreBlocks ::
  "(jsval \<Rightarrow> nat option) \<Rightarrow> leveldb \<Rightarrow> blockQuery option \<Rightarrow> error + emitted list" where
  "restoreBlocks K db query =
     (let reverse = (case query of
                       None \<Rightarrow> True
                     | Some q \<Rightarrow> (case q_direction q of Some (JStr d) \<Rightarrow> d \<noteq> ''forward''
                                                      | _ \<Rightarrow> True));
          offset = (case query of None \<Rightarrow> 0
                    | Some q \<Rightarrow> (case positive (q_offset q) of None \<Rightarrow> 0 | Some n \<Rightarrow> n));
          limit = (case query of None \<Rightarrow> - 1
                   | Some q \<Rightarrow> (case positive (q_limit q) of None \<Rightarrow> - 1 | Some n \<Rightarrow> n));
          timestampStart = (case query of None \<Rightarrow> None | Some q \<Rightarrow> positive (q_timestampStart q));
          timestampEnd = (case query of None \<Rightarrow> None | Some q \<Rightarrow> positive (q_timestampEnd q));
          headerOnly = (case query of None \<Rightarrow> False
                        | Some q \<Rightarrow> (case q_headerOnly q of Some (JBool b) \<Rightarrow> b | _ \<Rightarrow> False));
          tc = (case query of None \<Rightarrow> None | Some q \<Rightarrow> q_transactionCondition q)
      in case (indexStorages db, tc) of
           (Some storages, Some c) \<Rightarrow>
             (if (case c of ManyConditions cs \<Rightarrow> list_all (indexable storages) cs
                          | OneCondition entry \<Rightarrow> indexable storages entry)
              then restoreBlocksWithIndexes K db reverse offset limit timestampStart timestampEnd
                     headerOnly c
              else restoreBlocksSerially db reverse offset limit timestampStart timestampEnd
                     headerOnly (Some c))
         | _ \<Rightarrow> restoreBlocksSerially db reverse offset limit timestampStart timestampEnd
                  headerOnly tc)"


subsection \<open>Example store and queries\<close>

definition example_toBufferBE :: "jsval \<Rightarrow> nat option" where
  \<comment> \<open>a stand-in for the package function: decimal strings and BigInts name their block\<close>
  "example_toBufferBE v =
     (case v of
        JStr s \<Rightarrow> (if all_digits s then Some (digits_value s) else None)
      | JBig n \<Rightarrow> (if 0 \<le> n then Some (nat n) else None)
      | _ \<Rightarrow> None)"

definition two_block_store :: leveldb where
  "two_block_store = \<lparr> main = [(0, genesis_block), (1, second_block)], indexStorages = None \<rparr>"

definition forward_limit1 :: blockQuery where
  "forward_limit1 = \<lparr> q_direction = Some (JStr ''forward''), q_offset = None,
                      q_limit = Some (JNum 1), q_timestampStart = None, q_timestampEnd = None,
                      q_headerOnly = None, q_transactionCondition = None \<rparr>"

lemma two_block_store_committed: "bc_storage committed_node = two_block_store"
  by code_simp

lemma onData_offset:
  "onData offset1 limit timestampStart timestampEnd headerOnly tc =
   onData offset2 limit timestampStart timestampEnd headerOnly tc"
proof (intro ext)
  fix transactionCount :: nat and kv :: "nat \<times> block"
  have n: "(if b then splice0 xs else xs) = xs" for b and xs :: "jsval list"
    by (simp add: splice0_def)
  show "onData offset1 limit timestampStart timestampEnd headerOnly tc transactionCount kv =
        onData offset2 limit timestampStart timestampEnd headerOnly tc transactionCount kv"
    unfolding onData_def Let_def n ..
qed

section \<open>Claims\<close>

text \<open>
  C5. For every non-empty sequence of transactions, \<^verbatim>\<open>#getRootHash\<close> returns the
  Merkle root of the specification: each transaction is hashed over its canonical JSON
  (BigInt values as decimal strings), consecutive pairs of hashes are replaced by the hash
  of their concatenation, a trailing unpaired hash is carried through unchanged, and this
  is repeated until a single hash remains.
\<close>

theorem getRootHash_is_merkle_root:
  "txs \<noteq> [] \<Longrightarrow>
   getRootHash H stringify txs = Some (merkle_root_spec H stringify txs)"
  by (simp add: getRootHash_def merkle_root_spec_def serialize_def findRoot_merkle_reduce)

theorem getRootHash_is_merkle_root_witness:
  "[JObj [(''a'', JNum 1)], JNull, JStr ''x''] \<noteq> [] \<and>
   getRootHash example_sha256 example_stringify [JObj [(''a'', JNum 1)], JNull, JStr ''x''] =
     Some (merkle_root_spec example_sha256 example_stringify
             [JObj [(''a'', JNum 1)], JNull, JStr ''x''])"
  using getRootHash_is_merkle_root
          [of "[JObj [(''a'', JNum 1)], JNull, JStr ''x'']" example_sha256 example_stringify]
  by simp




text \<open>
  C4. \<^verbatim>\<open>commitProofOfWork\<close> is documented to take a BigInt index, and both callers
  pass one (\<^verbatim>\<open>getProofOfWork\<close> returns \<^verbatim>\<open>lastIndex+1n\<close>, and the deserializer
  turns every received \<^verbatim>\<open>index\<close> into a BigInt). With such an index, a non-empty
  pool, a stored genesis block and a root hash that is not the pool's Merkle root, the
  call returns at the type check without reporting any error.
\<close>

theorem commitProofOfWork_bigint_index_silent:
  "commitProofOfWork example_sha256 example_stringify 1 pending_node
     (JBig 1) (JStr ''wrong'') (JNum 0) = (Skipped, pending_node)"
  by code_simp

text \<open>
  C1, as stated: in every state reachable through \<^verbatim>\<open>generateGenesisBlock\<close>,
  \<^verbatim>\<open>commitBlock\<close>, \<^verbatim>\<open>commitProofOfWork\<close> and \<^verbatim>\<open>setBlocks\<close>, a
  stored block \<open>i+1\<close> has the hash of the stored block \<open>i\<close> as its previous hash.
  A fresh node that receives two unrelated blocks through \<^verbatim>\<open>setBlocks\<close> stores both.
\<close>

theorem hash_chain_counterexample:
  "engine_reachable True example_sha256 example_stringify forked_node \<and>
   restoreBlock (bc_storage forked_node) (int 0) = Some orphan0 \<and>
   restoreBlock (bc_storage forked_node) (int 0 + 1) = Some orphan1 \<and>
   prevHash orphan1 \<noteq> hash orphan0"
proof -
  have "engine_reachable True example_sha256 example_stringify empty_node"
    by (rule engine_reachable.fresh) (simp_all add: empty_node_def)
  then have "engine_reachable True example_sha256 example_stringify
               (snd (setBlocks example_sha256 example_stringify empty_node [orphan0, orphan1]))"
    by (rule engine_reachable.sync) simp
  then have r: "engine_reachable True example_sha256 example_stringify forked_node"
    by (simp only: forked_example)
  have a: "restoreBlock (bc_storage forked_node) (int 0) = Some orphan0"
    by code_simp
  have b: "restoreBlock (bc_storage forked_node) (int 0 + 1) = Some orphan1"
    by code_simp
  have c: "prevHash orphan1 \<noteq> hash orphan0"
    by code_simp
  from r a b c show ?thesis by blast
qed

text \<open>
  C1, amended: in every state reachable from a fresh store through the pool operation,
  \<^verbatim>\<open>generateGenesisBlock\<close>, \<^verbatim>\<open>commitBlock\<close>, \<^verbatim>\<open>commitProofOfWork\<close> and
  \<^verbatim>\<open>setBlocks\<close> on a store that is not empty, if blocks \<open>i\<close> and \<open>i+1\<close> are
  both stored then the previous hash of block \<open>i+1\<close> is the hash of block \<open>i\<close>.
\<close>

theorem hash_chain_invariant:
  assumes "engine_reachable False H stringify bc"
    and "restoreBlock (bc_storage bc) (int i) = Some a"
    and "restoreBlock (bc_storage bc) (int i + 1) = Some b"
  shows "prevHash b = hash a"
proof -
  let ?db = "main (bc_storage bc)"
  have inv: "chain_inv H ?db" using assms(1) by (rule reachable_chain_inv)
  have a: "map_of ?db i = Some a" using assms(2) by (simp add: restoreBlock_def)
  have "nat (int i + 1) = Suc i" by simp
  then have b: "map_of ?db (Suc i) = Some b" using assms(3) by (simp add: restoreBlock_def)
  from chain_inv_lookup[OF inv a] chain_inv_lookup[OF inv b]
  have "Suc i < length ?db" "a = snd (?db ! i)" "b = snd (?db ! Suc i)" by simp_all
  then show ?thesis using inv by (simp add: chain_inv_def)
qed

theorem hash_chain_invariant_witness:
  "engine_reachable False example_sha256 example_stringify committed_node \<and>
   restoreBlock (bc_storage committed_node) (int 0) = Some genesis_block \<and>
   restoreBlock (bc_storage committed_node) (int 0 + 1) = Some second_block \<and>
   prevHash second_block = hash genesis_block"
proof -
  have "engine_reachable False example_sha256 example_stringify empty_node"
    by (rule engine_reachable.fresh) (simp_all add: empty_node_def)
  then have "engine_reachable False example_sha256 example_stringify genesis_node"
    using genesis_example by (rule engine_reachable.genesis)
  then have "engine_reachable False example_sha256 example_stringify
               (addTransaction genesis_node (1, JObj [(''transactionId'', JStr ''t1'')]))"
    by (rule engine_reachable.add)
  then have "engine_reachable False example_sha256 example_stringify pending_node"
    by (simp only: pending_example)
  then have r: "engine_reachable False example_sha256 example_stringify committed_node"
    unfolding committed_node_def by (rule engine_reachable.commit)
  have a: "restoreBlock (bc_storage committed_node) (int 0) = Some genesis_block"
    by code_simp
  have b: "restoreBlock (bc_storage committed_node) (int 0 + 1) = Some second_block"
    by code_simp
  from hash_chain_invariant[OF r a b] r a b show ?thesis by blast
qed

text \<open>
  C7, as stated: \<^verbatim>\<open>deserialize(serialize(x)) == x\<close> for every block and every
  transaction. A transaction with a numeric attribute named \<^verbatim>\<open>index\<close> comes back
  with a BigInt there, and a transaction with a BigInt under any other name comes back
  with a string there.
\<close>

theorem serializer_round_trip_counterexample:
  "deserialize example_parse
     (serialize example_stringify (JObj [(''transactionId'', JStr ''t1''), (''index'', JNum 5)]))
     \<noteq> JObj [(''transactionId'', JStr ''t1''), (''index'', JNum 5)] \<and>
   deserialize example_parse
     (serialize example_stringify (JObj [(''transactionId'', JStr ''t1''), (''amount'', JBig 5)]))
     \<noteq> JObj [(''transactionId'', JStr ''t1''), (''amount'', JBig 5)]"
  by code_simp

text \<open>
  C7, amended: \<^verbatim>\<open>deserialize(serialize(x)) == x\<close> for every value in canonical
  form (every BigInt is the non-negative value of a key \<^verbatim>\<open>index\<close>, and no other
  value of a key \<^verbatim>\<open>index\<close> converts to a string of digits), provided the JSON text
  of the value parses back to the tree it was printed from. Every block whose
  transactions are canonical is such a value.
\<close>

theorem serializer_round_trip_canonical:
  assumes "canonical [] x"
    and "parse (stringify (replaceBigInt x)) = replaceBigInt x"
  shows "deserialize parse (serialize stringify x) = x"
  using assms canonical_roundtrip(1)[of "[]" x]
  by (simp add: deserialize_def serialize_def)

theorem serializer_round_trip_canonical_witness:
  "canonical [] example_block_value \<and>
   example_parse (example_stringify (replaceBigInt example_block_value)) =
     replaceBigInt example_block_value \<and>
   deserialize example_parse (serialize example_stringify example_block_value) =
     example_block_value"
proof -
  have c: "canonical [] example_block_value"
    by code_simp
  have p: "example_parse (example_stringify (replaceBigInt example_block_value)) =
             replaceBigInt example_block_value"
    by code_simp
  from serializer_round_trip_canonical
         [of example_block_value example_parse example_stringify, OF c p] c p
  show ?thesis by blast
qed

text \<open>
  C8. With \<^verbatim>\<open>temporary = true\<close> and an array holding one transaction that has a
  \<^verbatim>\<open>transactionId\<close>, the transaction carries no \<^verbatim>\<open>@temp\<close> attribute
  afterwards: the attribute is written on the array, and the transaction goes straight
  into the pool instead of the backlog. (The branch for a single object annotates the
  object itself, see \<open>addTransaction_single_annotated\<close>.)
\<close>

theorem addTransaction_array_not_annotated:
  "server_addTransaction 7 idle_server
     (Several [(1, JObj [(''transactionId'', JStr ''t1'')])] []) (Some True) =
   Inr (Several [(1, JObj [(''transactionId'', JStr ''t1'')])] [(''@temp'', JNum 7)],
        idle_server\<lparr>srv_blockchain := pending_node\<rparr>)"
  by code_simp

text \<open>
  C6, as stated: every append carrying an entry with a sequence and a transaction is
  either acknowledged idempotently or recorded and acknowledged. The handler also asks
  for the entry's \<^verbatim>\<open>type\<close>: an entry with a new sequence and a transaction but no
  type is neither recorded nor acknowledged.
\<close>

theorem append_entry_counterexample:
  "e_sequence (the (a_entry untyped5)) = Some 5 \<and>
   e_transaction (the (a_entry untyped5)) = Some (JObj [(''transactionId'', JStr ''t5'')]) \<and>
   provisionalBlocksequence follower0 < 5 \<and>
   handleAppend follower0 untyped5 = (follower0, [Heartbeat])"
  by (simp add: handleAppend_def untyped5_def follower0_def Let_def)

text \<open>
  C6, amended: for every node and every received append with a sender id and a term whose
  entry carries a type, a sequence and a transaction: if the sequence is at most
  \<^verbatim>\<open>provisionalSequence\<close> and not among the lost sequences, the node only replies
  \<^verbatim>\<open>appended\<close> with that sequence and its provisional state is unchanged.
  Otherwise, if the sequence exceeds \<^verbatim>\<open>provisionalSequence\<close> the sequences in
  between are appended to the lost ones and \<^verbatim>\<open>provisionalSequence\<close> becomes the
  sequence; if the sequence was lost it is removed from the lost ones; in both cases
  the entry is recorded with consensus 1 and the sender as owner, and the node replies
  \<^verbatim>\<open>appended\<close> with the sequence.
\<close>

theorem append_entry_synchronised:
  assumes "a_id d = Some sender" "a_term d = Some t" "a_entry d = Some e"
    and "e_type e = Some ty" "e_sequence e = Some s" "e_transaction e = Some tx"
    and "handleAppend n d = (n', effs)"
  shows "(s \<le> provisionalBlocksequence n \<and> s \<notin> set (lostProvisionalBlocksequences n) \<longrightarrow>
            effs = [Reply (appendedReply n' s)] \<and>
            provisionalBlocksequence n' = provisionalBlocksequence n \<and>
            lostProvisionalBlocksequences n' = lostProvisionalBlocksequences n \<and>
            provisionalBlocks n' = provisionalBlocks n) \<and>
         (provisionalBlocksequence n < s \<longrightarrow>
            lostProvisionalBlocksequences n' =
              lostProvisionalBlocksequences n @ [provisionalBlocksequence n + 1 ..< s] \<and>
            provisionalBlocksequence n' = s) \<and>
         (s \<le> provisionalBlocksequence n \<and> s \<in> set (lostProvisionalBlocksequences n) \<longrightarrow>
            lostProvisionalBlocksequences n' = remove1 s (lostProvisionalBlocksequences n) \<and>
            provisionalBlocksequence n' = provisionalBlocksequence n) \<and>
         (\<not> (s \<le> provisionalBlocksequence n \<and> s \<notin> set (lostProvisionalBlocksequences n)) \<longrightarrow>
            provisionalBlocks n' =
              AList.update s \<lparr> p_transaction = tx, p_type = ty, consensus = 1, owner = sender \<rparr>
                (provisionalBlocks n) \<and>
            effs = [Reply (appendedReply n' s), Heartbeat])"
  using assms(7) unfolding handleAppend_entry[OF assms(1-6)]
  by (auto simp: syncEntry_def Let_def appendedReply_def split: if_splits)

theorem append_entry_synchronised_witness:
  "a_id append5 = Some 1 \<and> a_term append5 = Some 1 \<and>
   e_type (the (a_entry append5)) = Some ''normal'' \<and>
   e_sequence (the (a_entry append5)) = Some 5 \<and>
   provisionalBlocksequence follower0 < 5 \<and>
   lostProvisionalBlocksequences (fst (handleAppend follower0 append5)) = [3, 4] \<and>
   provisionalBlocksequence (fst (handleAppend follower0 append5)) = 5"
proof -
  have e: "a_entry append5 = Some (the (a_entry append5))" by (simp add: append5_def)
  have h: "a_id append5 = Some 1" "a_term append5 = Some 1"
    "e_type (the (a_entry append5)) = Some ''normal''"
    "e_sequence (the (a_entry append5)) = Some 5"
    "e_transaction (the (a_entry append5)) = Some (JObj [(''transactionId'', JStr ''t5'')])"
    by (simp_all add: append5_def)
  have p: "provisionalBlocksequence follower0 < 5" "lostProvisionalBlocksequences follower0 = []"
    "provisionalBlocksequence follower0 + 1 = 3"
    by (simp_all add: follower0_def)
  have u: "[3 ..< 5] = [3, 4::nat]" by (simp add: upt_rec)
  from append_entry_synchronised[OF h(1,2) e h(3,4,5), of follower0
         "fst (handleAppend follower0 append5)" "snd (handleAppend follower0 append5)"]
  have "lostProvisionalBlocksequences (fst (handleAppend follower0 append5)) =
          lostProvisionalBlocksequences follower0 @ [provisionalBlocksequence follower0 + 1 ..< 5]"
    and "provisionalBlocksequence (fst (handleAppend follower0 append5)) = 5"
    using p(1) by simp_all
  then show ?thesis using h p u by simp
qed



text \<open>
  C9. On the serial scan the limit is handed to the read stream, so it bounds the entries
  read, not the blocks emitted. A store holding the genesis block and one further block,
  asked for one block in forward direction, reads the genesis block, excludes it, and
  returns nothing, although the further block passes every filter (without a limit it is
  returned).
\<close>

theorem limit_counts_scanned_entries:
  "restoreBlocks example_toBufferBE two_block_store (Some forward_limit1) = Inr [] \<and>
   restoreBlocks example_toBufferBE two_block_store (Some (forward_limit1\<lparr>q_limit := None\<rparr>)) =
     Inr [FullBlock second_block]"
  by code_simp

text \<open>
  C10. The offset of a query has no effect on the result of \<^verbatim>\<open>restoreBlocks\<close>: the
  serial scan, the index-assisted path and \<^verbatim>\<open>restoreBlocks\<close> itself return the same
  for any two offsets, all other arguments being equal.
\<close>

theorem offset_has_no_effect:
  "restoreBlocksSerially db reverse offsetA limit timestampStart timestampEnd headerOnly tc =
   restoreBlocksSerially db reverse offsetB limit timestampStart timestampEnd headerOnly tc \<and>
   restoreBlocksWithIndexes K db reverse offsetA limit timestampStart timestampEnd headerOnly c =
   restoreBlocksWithIndexes K db reverse offsetB limit timestampStart timestampEnd headerOnly c \<and>
   restoreBlocks K db (Some (q\<lparr>q_offset := oa\<rparr>)) = restoreBlocks K db (Some (q\<lparr>q_offset := ob\<rparr>))"
proof (intro conjI)
  show s: "restoreBlocksSerially db reverse x lim ts te h t =
           restoreBlocksSerially db reverse y lim ts te h t" for reverse x y lim ts te h t
    unfolding restoreBlocksSerially_def by (simp add: onData_offset[of x lim ts te h t y])
  show w: "restoreBlocksWithIndexes K db reverse x lim ts te h t =
           restoreBlocksWithIndexes K db reverse y lim ts te h t" for reverse x y lim ts te h t
    by (simp add: restoreBlocksWithIndexes_def)
  have p: "positive None = None" by (simp add: positive_def)
  have key: "restoreBlocks K db (Some r) = restoreBlocks K db (Some (r\<lparr>q_offset := None\<rparr>))"
    for r :: blockQuery
    unfolding restoreBlocks_def Let_def
    by (simp add: p
          s[of _ "case positive (q_offset r) of None \<Rightarrow> 0 | Some n \<Rightarrow> n" _ _ _ _ _ 0]
          w[of _ "case positive (q_offset r) of None \<Rightarrow> 0 | Some n \<Rightarrow> n" _ _ _ _ _ 0]
          cong: option.case_cong if_cong)
  show "restoreBlocks K db (Some (q\<lparr>q_offset := oa\<rparr>)) = restoreBlocks K db (Some (q\<lparr>q_offset := ob\<rparr>))"
    using key[of "q\<lparr>q_offset := oa\<rparr>"] key[of "q\<lparr>q_offset := ob\<rparr>"] by simp
qed

theorem offset_has_no_effect_witness:
  "restoreBlocks example_toBufferBE two_block_store
     (Some (forward_limit1\<lparr>q_limit := None, q_offset := Some (JNum 5)\<rparr>)) =
   restoreBlocks example_toBufferBE two_block_store
     (Some (forward_limit1\<lparr>q_limit := None, q_offset := None\<rparr>)) \<and>
   restoreBlocks example_toBufferBE two_block_store
     (Some (forward_limit1\<lparr>q_limit := None, q_offset := None\<rparr>)) = Inr [FullBlock second_block]"
proof -
  have e: "restoreBlocks example_toBufferBE two_block_store
             (Some (forward_limit1\<lparr>q_limit := None, q_offset := None\<rparr>)) =
           Inr [FullBlock second_block]"
    by code_simp
  from offset_has_no_effect[where K = example_toBufferBE and db = two_block_store
         and q = "forward_limit1\<lparr>q_limit := None\<rparr>" and oa = "Some (JNum 5)" and ob = None]
  have "restoreBlocks example_toBufferBE two_block_store
          (Some (forward_limit1\<lparr>q_limit := None, q_offset := Some (JNum 5)\<rparr>)) =
        restoreBlocks example_toBufferBE two_block_store
          (Some (forward_limit1\<lparr>q_limit := None, q_offset := None\<rparr>))"
    by simp
  then show ?thesis using e by simp
qed

end
